theory Spec2Isabelle
  imports Complex_Main
begin

section \<open>Strings, integers and exceptions of the C++ runtime\<close>

text \<open>
  The program is a single translation unit, \<^verbatim>\<open>UMS.cpp\<close>. A \<^verbatim>\<open>std::string\<close> is a
  \<^typ>\<open>string\<close>; an \<^verbatim>\<open>int\<close> is an \<^typ>\<open>int\<close> together with the bounds of the
  32-bit type where the code can leave them. Exceptions are values: a function that can
  throw returns \<open>exn + 'a\<close>, with \<open>Inl\<close> the exception that leaves it.
\<close>

datatype exn =
    InvalidArgument   \<comment> \<open>\<^verbatim>\<open>std::invalid_argument\<close>, thrown by \<^verbatim>\<open>std::stoi\<close>\<close>
  | OutOfRange        \<comment> \<open>\<^verbatim>\<open>std::out_of_range\<close>, thrown by \<^verbatim>\<open>std::stoi\<close>\<close>
  | LengthError       \<comment> \<open>\<^verbatim>\<open>std::length_error\<close>, thrown by the fill constructor of \<^verbatim>\<open>std::string\<close>\<close>
  | SignedOverflow    \<comment> \<open>overflow of \<^verbatim>\<open>int\<close> arithmetic (undefined behaviour)\<close>

definition INT_MAX :: int where
  "INT_MAX = 2147483647"

definition INT_MIN :: int where
  "INT_MIN = - 2147483648"

text \<open>Sequencing of computations that may throw: the first exception wins.\<close>

definition bind_exn :: "exn + 'a \<Rightarrow> ('a \<Rightarrow> exn + 'b) \<Rightarrow> exn + 'b" where
  "bind_exn m f = (case m of Inl e \<Rightarrow> Inl e | Inr x \<Rightarrow> f x)"

subsection \<open>\<^verbatim>\<open>std::to_string\<close>\<close>

text \<open>The decimal digits of a number that is not negative, most significant first.\<close>

definition digit_char :: "int \<Rightarrow> char" where
  "digit_char d = ''0123456789'' ! nat d"

function dec_digits :: "int \<Rightarrow> string" where
  "dec_digits n =
     (if n < 10 then [digit_char n] else dec_digits (n div 10) @ [digit_char (n mod 10)])"
  by pat_completeness auto
termination
  by (relation "measure nat") auto

declare dec_digits.simps [simp del]

definition to_string :: "int \<Rightarrow> string" where
  "to_string n = (if n < 0 then CHR ''-'' # dec_digits (- n) else dec_digits n)"

subsection \<open>\<^verbatim>\<open>std::stoi\<close>\<close>

text \<open>
  \<^verbatim>\<open>std::stoi(s)\<close> is \<^verbatim>\<open>strtol\<close> in base 10: leading white space is skipped, one sign is
  accepted, the longest run of decimal digits is converted and whatever follows is ignored.
  No digit at that place is \<^verbatim>\<open>std::invalid_argument\<close>; a value outside \<^verbatim>\<open>int\<close> is
  \<^verbatim>\<open>std::out_of_range\<close>.
\<close>

definition isspace :: "char \<Rightarrow> bool" where
  "isspace c \<longleftrightarrow> c \<in> set [CHR '' '', CHR 0x09, CHR 0x0A, CHR 0x0B, CHR 0x0C, CHR 0x0D]"

definition isdigit :: "char \<Rightarrow> bool" where
  "isdigit c \<longleftrightarrow> c \<in> set ''0123456789''"

definition digit_val :: "char \<Rightarrow> int" where
  "digit_val c = of_char c - 48"

definition digits_val :: "string \<Rightarrow> int" where
  "digits_val ds = foldl (\<lambda>a c. 10 * a + digit_val c) 0 ds"

definition stoi :: "string \<Rightarrow> exn + int" where
  "stoi s =
     (let s1 = dropWhile isspace s;
          neg = (s1 \<noteq> [] \<and> hd s1 = CHR ''-'');
          s2 = (if s1 \<noteq> [] \<and> (hd s1 = CHR ''-'' \<or> hd s1 = CHR ''+'') then tl s1 else s1);
          ds = takeWhile isdigit s2;
          v = (if neg then - digits_val ds else digits_val ds)
      in if ds = [] then Inl InvalidArgument
         else if v < INT_MIN \<or> INT_MAX < v then Inl OutOfRange
         else Inr v)"

subsection \<open>Reading with \<^verbatim>\<open>std::getline\<close>\<close>

text \<open>
  The loop \<^verbatim>\<open>while (std::getline(in, token, d)) tokens.push_back(token);\<close> over the
  characters that remain in the stream. \<open>cur\<close> is the token being extracted. A delimiter
  ends the token, which is stored even when empty. At the end of the input a non-empty
  token is stored; an extraction that finds no character at all fails and ends the loop,
  so an empty field after the last delimiter is never produced.
\<close>

fun getline_acc :: "char \<Rightarrow> string \<Rightarrow> string \<Rightarrow> string list" where
  "getline_acc d cur [] = (if cur = [] then [] else [cur])"
| "getline_acc d cur (c # cs) =
     (if c = d then cur # getline_acc d [] cs else getline_acc d (cur @ [c]) cs)"

definition getline_all :: "char \<Rightarrow> string \<Rightarrow> string list" where
  "getline_all d s = getline_acc d [] s"

text \<open>The tokens of a CSV line, as every \<^verbatim>\<open>fromCSV\<close> computes them.\<close>

definition csv_tokens :: "string \<Rightarrow> string list" where
  "csv_tokens csv = getline_all (CHR '','') csv"

section \<open>Record types and their CSV codec\<close>

subsection \<open>Grade\<close>

record Grade =
  Grade_studentId :: string
  Grade_examId :: string
  Grade_marksObtained :: int
  Grade_letterGrade :: string
  Grade_comments :: string

text \<open>\<^verbatim>\<open>Grade()\<close>: value-initialisation, every string empty and the integer zero.\<close>

definition Grade_default :: Grade where
  "Grade_default =
     \<lparr>Grade_studentId = [], Grade_examId = [], Grade_marksObtained = 0,
      Grade_letterGrade = [], Grade_comments = []\<rparr>"

definition Grade_toCSV :: "Grade \<Rightarrow> string" where
  "Grade_toCSV g =
     Grade_studentId g @ '','' @ Grade_examId g @ '','' @ to_string (Grade_marksObtained g) @ '','' @
     Grade_letterGrade g @ '','' @ Grade_comments g"

definition Grade_fromCSV :: "string \<Rightarrow> exn + Grade" where
  "Grade_fromCSV csv =
     (let tokens = csv_tokens csv
      in if length tokens \<ge> 5 then
           bind_exn (stoi (tokens ! 2)) (\<lambda>marks.
             Inr \<lparr>Grade_studentId = tokens ! 0, Grade_examId = tokens ! 1,
                  Grade_marksObtained = marks, Grade_letterGrade = tokens ! 3,
                  Grade_comments = tokens ! 4\<rparr>)
         else Inr Grade_default)"

subsection \<open>Department\<close>

record Department =
  Department_deptId :: string
  Department_deptName :: string
  Department_headOfDept :: string
  Department_description :: string

definition Department_default :: Department where
  "Department_default =
     \<lparr>Department_deptId = [], Department_deptName = [], Department_headOfDept = [],
      Department_description = []\<rparr>"

definition Department_toCSV :: "Department \<Rightarrow> string" where
  "Department_toCSV d =
     Department_deptId d @ '','' @ Department_deptName d @ '','' @ Department_headOfDept d @ '','' @
     Department_description d"

definition Department_fromCSV :: "string \<Rightarrow> Department" where
  "Department_fromCSV csv =
     (let tokens = csv_tokens csv
      in if length tokens \<ge> 4 then
           \<lparr>Department_deptId = tokens ! 0, Department_deptName = tokens ! 1,
            Department_headOfDept = tokens ! 2, Department_description = tokens ! 3\<rparr>
         else Department_default)"

subsection \<open>Semester\<close>

record Semester =
  Semester_semesterId :: string
  Semester_semesterName :: string
  Semester_startDate :: string
  Semester_endDate :: string
  Semester_status :: string

definition Semester_default :: Semester where
  "Semester_default =
     \<lparr>Semester_semesterId = [], Semester_semesterName = [], Semester_startDate = [],
      Semester_endDate = [], Semester_status = []\<rparr>"

definition Semester_toCSV :: "Semester \<Rightarrow> string" where
  "Semester_toCSV s =
     Semester_semesterId s @ '','' @ Semester_semesterName s @ '','' @ Semester_startDate s @ '','' @
     Semester_endDate s @ '','' @ Semester_status s"

definition Semester_fromCSV :: "string \<Rightarrow> Semester" where
  "Semester_fromCSV csv =
     (let tokens = csv_tokens csv
      in if length tokens \<ge> 5 then
           \<lparr>Semester_semesterId = tokens ! 0, Semester_semesterName = tokens ! 1,
            Semester_startDate = tokens ! 2, Semester_endDate = tokens ! 3,
            Semester_status = tokens ! 4\<rparr>
         else Semester_default)"

subsection \<open>Course\<close>

record Course =
  Course_courseId :: string
  Course_courseName :: string
  Course_teacherId :: string
  Course_departmentId :: string
  Course_semesterId :: string
  Course_credits :: int
  Course_schedule :: string
  Course_maxStudents :: int

definition Course_default :: Course where
  "Course_default =
     \<lparr>Course_courseId = [], Course_courseName = [], Course_teacherId = [],
      Course_departmentId = [], Course_semesterId = [], Course_credits = 0,
      Course_schedule = [], Course_maxStudents = 0\<rparr>"

definition Course_toCSV :: "Course \<Rightarrow> string" where
  "Course_toCSV c =
     Course_courseId c @ '','' @ Course_courseName c @ '','' @ Course_teacherId c @ '','' @
     Course_departmentId c @ '','' @ Course_semesterId c @ '','' @ to_string (Course_credits c) @ '','' @
     Course_schedule c @ '','' @ to_string (Course_maxStudents c)"

definition Course_fromCSV :: "string \<Rightarrow> exn + Course" where
  "Course_fromCSV csv =
     (let tokens = csv_tokens csv
      in if length tokens \<ge> 8 then
           bind_exn (stoi (tokens ! 5)) (\<lambda>credits.
           bind_exn (stoi (tokens ! 7)) (\<lambda>maxStudents.
             Inr \<lparr>Course_courseId = tokens ! 0, Course_courseName = tokens ! 1,
                  Course_teacherId = tokens ! 2, Course_departmentId = tokens ! 3,
                  Course_semesterId = tokens ! 4, Course_credits = credits,
                  Course_schedule = tokens ! 6, Course_maxStudents = maxStudents\<rparr>))
         else Inr Course_default)"

subsection \<open>Exam\<close>

record Exam =
  Exam_examId :: string
  Exam_courseId :: string
  Exam_examName :: string
  Exam_examDate :: string
  Exam_examTime :: string
  Exam_examType :: string
  Exam_totalMarks :: int

definition Exam_default :: Exam where
  "Exam_default =
     \<lparr>Exam_examId = [], Exam_courseId = [], Exam_examName = [], Exam_examDate = [],
      Exam_examTime = [], Exam_examType = [], Exam_totalMarks = 0\<rparr>"

definition Exam_toCSV :: "Exam \<Rightarrow> string" where
  "Exam_toCSV e =
     Exam_examId e @ '','' @ Exam_courseId e @ '','' @ Exam_examName e @ '','' @ Exam_examDate e @ '','' @
     Exam_examTime e @ '','' @ Exam_examType e @ '','' @ to_string (Exam_totalMarks e)"

definition Exam_fromCSV :: "string \<Rightarrow> exn + Exam" where
  "Exam_fromCSV csv =
     (let tokens = csv_tokens csv
      in if length tokens \<ge> 7 then
           bind_exn (stoi (tokens ! 6)) (\<lambda>totalMarks.
             Inr \<lparr>Exam_examId = tokens ! 0, Exam_courseId = tokens ! 1,
                  Exam_examName = tokens ! 2, Exam_examDate = tokens ! 3,
                  Exam_examTime = tokens ! 4, Exam_examType = tokens ! 5,
                  Exam_totalMarks = totalMarks\<rparr>)
         else Inr Exam_default)"

subsection \<open>User\<close>

record User =
  User_id :: string
  User_username :: string
  User_passwordHash :: string
  User_role :: string
  User_name :: string
  User_email :: string
  User_phone :: string
  User_address :: string
  User_departmentId :: string
  User_dateJoined :: string

definition User_default :: User where
  "User_default =
     \<lparr>User_id = [], User_username = [], User_passwordHash = [], User_role = [],
      User_name = [], User_email = [], User_phone = [], User_address = [],
      User_departmentId = [], User_dateJoined = []\<rparr>"

text \<open>
  \<^verbatim>\<open>SimpleHash::hash\<close> appends the salt and prints the value of \<^verbatim>\<open>std::hash<std::string>\<close>
  in decimal. The standard leaves \<^verbatim>\<open>std::hash\<close> to the implementation, so it is the
  parameter \<open>hasher\<close>, with a \<^verbatim>\<open>size_t\<close> result.
\<close>

definition SimpleHash_hash :: "(string \<Rightarrow> nat) \<Rightarrow> string \<Rightarrow> string" where
  "SimpleHash_hash hasher input = dec_digits (int (hasher (input @ ''UMS_SALT_2025'')))"

text \<open>
  The constructor of \<^verbatim>\<open>User\<close> stores the digest of the password and the decimal text of
  \<^verbatim>\<open>std::time(0)\<close>, the parameter \<open>now\<close>, which stands here between the six
  arguments that every call gives and the three that default to the empty string.
\<close>

definition User_new ::
  "(string \<Rightarrow> nat) \<Rightarrow> string \<Rightarrow> string \<Rightarrow> string \<Rightarrow> string \<Rightarrow> string \<Rightarrow> string \<Rightarrow>
   int \<Rightarrow> string \<Rightarrow> string \<Rightarrow> string \<Rightarrow> User" where
  "User_new hasher ident username password role name email now phone address deptId =
     \<lparr>User_id = ident, User_username = username,
      User_passwordHash = SimpleHash_hash hasher password, User_role = role,
      User_name = name, User_email = email, User_phone = phone, User_address = address,
      User_departmentId = deptId, User_dateJoined = to_string now\<rparr>"

definition User_toCSV :: "User \<Rightarrow> string" where
  "User_toCSV u =
     User_id u @ '','' @ User_username u @ '','' @ User_passwordHash u @ '','' @ User_role u @ '','' @
     User_name u @ '','' @ User_email u @ '','' @ User_phone u @ '','' @ User_address u @ '','' @
     User_departmentId u @ '','' @ User_dateJoined u"

definition User_fromCSV :: "string \<Rightarrow> User" where
  "User_fromCSV csv =
     (let tokens = csv_tokens csv
      in if length tokens \<ge> 10 then
           \<lparr>User_id = tokens ! 0, User_username = tokens ! 1, User_passwordHash = tokens ! 2,
            User_role = tokens ! 3, User_name = tokens ! 4, User_email = tokens ! 5,
            User_phone = tokens ! 6, User_address = tokens ! 7,
            User_departmentId = tokens ! 8, User_dateJoined = tokens ! 9\<rparr>
         else User_default)"

subsection \<open>Enrollment\<close>

record Enrollment =
  Enrollment_studentId :: string
  Enrollment_courseId :: string
  Enrollment_grade :: string
  Enrollment_status :: string

definition Enrollment_default :: Enrollment where
  "Enrollment_default =
     \<lparr>Enrollment_studentId = [], Enrollment_courseId = [], Enrollment_grade = [],
      Enrollment_status = []\<rparr>"

definition Enrollment_toCSV :: "Enrollment \<Rightarrow> string" where
  "Enrollment_toCSV e =
     Enrollment_studentId e @ '','' @ Enrollment_courseId e @ '','' @ Enrollment_grade e @ '','' @
     Enrollment_status e"

definition Enrollment_fromCSV :: "string \<Rightarrow> Enrollment" where
  "Enrollment_fromCSV csv =
     (let tokens = csv_tokens csv
      in if length tokens \<ge> 4 then
           \<lparr>Enrollment_studentId = tokens ! 0, Enrollment_courseId = tokens ! 1,
            Enrollment_grade = tokens ! 2, Enrollment_status = tokens ! 3\<rparr>
         else Enrollment_default)"

subsection \<open>Attendance\<close>

record Attendance =
  Attendance_studentId :: string
  Attendance_courseId :: string
  Attendance_date :: string
  Attendance_status :: string

definition Attendance_default :: Attendance where
  "Attendance_default =
     \<lparr>Attendance_studentId = [], Attendance_courseId = [], Attendance_date = [],
      Attendance_status = []\<rparr>"

definition Attendance_toCSV :: "Attendance \<Rightarrow> string" where
  "Attendance_toCSV a =
     Attendance_studentId a @ '','' @ Attendance_courseId a @ '','' @ Attendance_date a @ '','' @
     Attendance_status a"

definition Attendance_fromCSV :: "string \<Rightarrow> Attendance" where
  "Attendance_fromCSV csv =
     (let tokens = csv_tokens csv
      in if length tokens \<ge> 4 then
           \<lparr>Attendance_studentId = tokens ! 0, Attendance_courseId = tokens ! 1,
            Attendance_date = tokens ! 2, Attendance_status = tokens ! 3\<rparr>
         else Attendance_default)"

section \<open>The collection store\<close>

text \<open>
  \<^verbatim>\<open>DatabaseManager\<close> holds one vector per entity kind. The eight backing files are the
  record \<open>Disk\<close>: the text of each file, or \<open>None\<close> when \<^verbatim>\<open>std::ifstream\<close> cannot open it.
  \<open>USERS_FILE_writable\<close> says whether \<^verbatim>\<open>std::ofstream file(USERS_FILE)\<close> opens.
\<close>

record DatabaseManager =
  users :: "User list"
  departments :: "Department list"
  semesters :: "Semester list"
  courses :: "Course list"
  exams :: "Exam list"
  grades :: "Grade list"
  enrollments :: "Enrollment list"
  attendanceRecords :: "Attendance list"

record Disk =
  USERS_FILE :: "string option"
  USERS_FILE_writable :: bool
  DEPARTMENTS_FILE :: "string option"
  SEMESTERS_FILE :: "string option"
  COURSES_FILE :: "string option"
  EXAMS_FILE :: "string option"
  GRADES_FILE :: "string option"
  ENROLLMENTS_FILE :: "string option"
  ATTENDANCE_FILE :: "string option"

text \<open>
  The lines that \<^verbatim>\<open>while (std::getline(file, line))\<close> delivers; none when the file is not
  open.
\<close>

definition file_lines :: "string option \<Rightarrow> string list" where
  "file_lines f = (case f of None \<Rightarrow> [] | Some text \<Rightarrow> getline_all (CHR 0x0A) text)"

text \<open>
  The body of every loader: each non-empty line is decoded and the result is pushed, in
  file order. \<open>load_lines\<close> is the loop for a decoder that cannot throw, \<open>load_lines_exn\<close>
  the loop for one that can: the first exception ends the loop and leaves the loader.
\<close>

fun load_lines :: "(string \<Rightarrow> 'a) \<Rightarrow> string list \<Rightarrow> 'a list" where
  "load_lines fromCSV [] = []"
| "load_lines fromCSV (line # rest) =
     (if line \<noteq> [] then fromCSV line # load_lines fromCSV rest else load_lines fromCSV rest)"

fun load_lines_exn :: "(string \<Rightarrow> exn + 'a) \<Rightarrow> string list \<Rightarrow> exn + 'a list" where
  "load_lines_exn fromCSV [] = Inr []"
| "load_lines_exn fromCSV (line # rest) =
     (if line \<noteq> [] then
        bind_exn (fromCSV line) (\<lambda>r.
        bind_exn (load_lines_exn fromCSV rest) (\<lambda>rs. Inr (r # rs)))
      else load_lines_exn fromCSV rest)"

definition saveUsers :: "User list \<Rightarrow> Disk \<Rightarrow> Disk" where
  "saveUsers us disk =
     (if USERS_FILE_writable disk
      then disk\<lparr>USERS_FILE := Some (concat (map (\<lambda>u. User_toCSV u @ [CHR 0x0A]) us))\<rparr>
      else disk)"

definition default_admin :: "(string \<Rightarrow> nat) \<Rightarrow> int \<Rightarrow> User" where
  "default_admin hasher now =
     User_new hasher ''admin001'' ''admin'' ''admin123'' ''admin''
       ''System Administrator'' ''admin@university.edu'' now [] [] []"

definition loadUsers :: "(string \<Rightarrow> nat) \<Rightarrow> int \<Rightarrow> Disk \<Rightarrow> User list \<times> Disk" where
  "loadUsers hasher now disk =
     (let us = load_lines User_fromCSV (file_lines (USERS_FILE disk))
      in if us = [] then ([default_admin hasher now], saveUsers [default_admin hasher now] disk)
         else (us, disk))"

definition loadDepartments :: "Disk \<Rightarrow> Department list" where
  "loadDepartments disk = load_lines Department_fromCSV (file_lines (DEPARTMENTS_FILE disk))"

definition loadSemesters :: "Disk \<Rightarrow> Semester list" where
  "loadSemesters disk = load_lines Semester_fromCSV (file_lines (SEMESTERS_FILE disk))"

definition loadCourses :: "Disk \<Rightarrow> exn + Course list" where
  "loadCourses disk = load_lines_exn Course_fromCSV (file_lines (COURSES_FILE disk))"

definition loadExams :: "Disk \<Rightarrow> exn + Exam list" where
  "loadExams disk = load_lines_exn Exam_fromCSV (file_lines (EXAMS_FILE disk))"

definition loadGrades :: "Disk \<Rightarrow> exn + Grade list" where
  "loadGrades disk = load_lines_exn Grade_fromCSV (file_lines (GRADES_FILE disk))"

definition loadEnrollments :: "Disk \<Rightarrow> Enrollment list" where
  "loadEnrollments disk = load_lines Enrollment_fromCSV (file_lines (ENROLLMENTS_FILE disk))"

definition loadAttendance :: "Disk \<Rightarrow> Attendance list" where
  "loadAttendance disk = load_lines Attendance_fromCSV (file_lines (ATTENDANCE_FILE disk))"

text \<open>
  \<^verbatim>\<open>loadAllData\<close> runs the eight loaders in order. Nothing between a decoder and
  \<^verbatim>\<open>main\<close> catches, so an exception of a loader is the result of \<^verbatim>\<open>loadAllData\<close>, and of
  the constructor of \<^verbatim>\<open>DatabaseManager\<close> that calls it. The disk is returned as
  \<^verbatim>\<open>loadUsers\<close> left it.
\<close>

definition loadAllData ::
  "(string \<Rightarrow> nat) \<Rightarrow> int \<Rightarrow> Disk \<Rightarrow> (exn + DatabaseManager) \<times> Disk" where
  "loadAllData hasher now disk =
     (let (us, disk') = loadUsers hasher now disk;
          ds = loadDepartments disk';
          ss = loadSemesters disk'
      in (bind_exn (loadCourses disk') (\<lambda>cs.
          bind_exn (loadExams disk') (\<lambda>es.
          bind_exn (loadGrades disk') (\<lambda>gs.
            Inr \<lparr>users = us, departments = ds, semesters = ss, courses = cs, exams = es,
                 grades = gs, enrollments = loadEnrollments disk',
                 attendanceRecords = loadAttendance disk'\<rparr>))),
          disk'))"

section \<open>Lookup and derivation queries\<close>

text \<open>
  \<^verbatim>\<open>std::find_if\<close> as the position of the first match; the length of the list is
  \<^verbatim>\<open>end()\<close>.
\<close>

fun find_if :: "('a \<Rightarrow> bool) \<Rightarrow> 'a list \<Rightarrow> nat" where
  "find_if P [] = 0"
| "find_if P (x # xs) = (if P x then 0 else Suc (find_if P xs))"

definition findCourse :: "DatabaseManager \<Rightarrow> string \<Rightarrow> Course option" where
  "findCourse db courseId = find (\<lambda>c. Course_courseId c = courseId) (courses db)"

definition findExam :: "DatabaseManager \<Rightarrow> string \<Rightarrow> Exam option" where
  "findExam db examId = find (\<lambda>e. Exam_examId e = examId) (exams db)"

definition getCourseExams :: "DatabaseManager \<Rightarrow> string \<Rightarrow> Exam list" where
  "getCourseExams db courseId = filter (\<lambda>e. Exam_courseId e = courseId) (exams db)"

definition isStudentEnrolled :: "DatabaseManager \<Rightarrow> string \<Rightarrow> string \<Rightarrow> bool" where
  "isStudentEnrolled db studentId courseId =
     list_ex (\<lambda>e. Enrollment_studentId e = studentId \<and> Enrollment_courseId e = courseId \<and>
                  Enrollment_status e = ''enrolled'') (enrollments db)"

section \<open>The identifier allocator\<close>

text \<open>
  One round of the loop over \<^verbatim>\<open>existingIds\<close>: an identifier longer than the prefix that
  starts with it has its suffix parsed; an exception of \<^verbatim>\<open>std::stoi\<close> is caught and the
  identifier skipped.
\<close>

definition nextId_step :: "string \<Rightarrow> int \<Rightarrow> string \<Rightarrow> int" where
  "nextId_step prefix maxNum ident =
     (if length ident > length prefix \<and> take (length prefix) ident = prefix then
        (case stoi (drop (length prefix) ident) of
           Inr num \<Rightarrow> max maxNum num
         | Inl e \<Rightarrow> maxNum)
      else maxNum)"

text \<open>
  \<^verbatim>\<open>std::string(count, ch)\<close> throws \<^verbatim>\<open>std::length_error\<close> when \<open>count\<close> exceeds
  \<^verbatim>\<open>max_size()\<close>. With a 64-bit \<^verbatim>\<open>size_t\<close> no implementation has a \<^verbatim>\<open>max_size()\<close> above
  \<open>2^63 - 1\<close>.
\<close>

definition string_max_size :: int where
  "string_max_size = 2 ^ 63 - 1"

definition string_fill :: "int \<Rightarrow> char \<Rightarrow> exn + string" where
  "string_fill count ch =
     (if count > string_max_size then Inl LengthError else Inr (replicate (nat count) ch))"

text \<open>
  The difference \<^verbatim>\<open>3 - std::to_string(maxNum + 1).length()\<close> is computed in \<^verbatim>\<open>size_t\<close>:
  it wraps modulo \<open>2^64\<close> when the text has more than three characters.
\<close>

definition size_t_sub :: "int \<Rightarrow> int \<Rightarrow> int" where
  "size_t_sub a b = (a - b) mod 2 ^ 64"

definition generateNextId :: "string \<Rightarrow> string list \<Rightarrow> exn + string" where
  "generateNextId prefix existingIds =
     (let maxNum = foldl (nextId_step prefix) 0 existingIds
      in if INT_MAX < maxNum + 1 then Inl SignedOverflow
         else bind_exn (string_fill (size_t_sub 3 (int (length (to_string (maxNum + 1))))) (CHR ''0''))
                (\<lambda>zeros. Inr (prefix @ zeros @ to_string (maxNum + 1))))"

section \<open>Deleting a user\<close>

text \<open>
  \<^verbatim>\<open>UMSApplication::deleteUser\<close> for the identifier typed in; the first component of the
  result is the message printed.
\<close>

definition deleteUser :: "string \<Rightarrow> DatabaseManager \<Rightarrow> string \<times> DatabaseManager" where
  "deleteUser ident db =
     (let it = find_if (\<lambda>u. User_id u = ident) (users db)
      in if it \<noteq> length (users db) then
           if User_role (users db ! it) = ''admin'' then (''Cannot delete admin user!'', db)
           else (''User deleted successfully!'',
                 db\<lparr>users := take it (users db) @ drop (Suc it) (users db)\<rparr>)
         else (''User not found!'', db))"

section \<open>Grade entry\<close>

subsection \<open>Arithmetic in \<^verbatim>\<open>double\<close>\<close>

text \<open>
  The percentage is computed in \<^verbatim>\<open>double\<close>, taken here as IEEE 754 binary64 with rounding
  to nearest, ties to even. A finite value is the rational it denotes; each operation rounds
  its exact result to 53 significant bits. The exponent is not bounded: every value that
  the grade computation meets is zero or lies between \<open>2^-31\<close> and \<open>100\<close>, far inside the
  range of binary64. The sign of zero is not recorded; no comparison depends on it.
\<close>

text \<open>The number of binary digits of a positive integer.\<close>

function bit_length :: "int \<Rightarrow> int" where
  "bit_length n = (if n \<le> 0 then 0 else 1 + bit_length (n div 2))"
  by pat_completeness auto
termination
  by (relation "measure nat") auto

declare bit_length.simps [simp del]

text \<open>The exponent \<open>e\<close> of a non-zero \<open>x\<close>: \<open>2^e \<le> |x| < 2^(e+1)\<close>.\<close>

definition binade :: "rat \<Rightarrow> int" where
  "binade x =
     (let (p, q) = quotient_of \<bar>x\<bar>;
          e0 = bit_length p - bit_length q
      in if 2 powi e0 \<le> \<bar>x\<bar> then e0 else e0 - 1)"

definition round_even :: "rat \<Rightarrow> int" where
  "round_even x =
     (let f = \<lfloor>x\<rfloor>; d = x - of_int f
      in if d < 1 / 2 then f else if 1 / 2 < d then f + 1 else if even f then f else f + 1)"

definition round_double :: "rat \<Rightarrow> rat" where
  "round_double x =
     (if x = 0 then 0
      else let ulp = 2 powi (binade x - 52) in of_int (round_even (x / ulp)) * ulp)"

datatype double = Double rat | PosInf | NegInf | NaN

text \<open>The conversion of an \<^verbatim>\<open>int\<close>, exact since an \<^verbatim>\<open>int\<close> has 32 bits.\<close>

definition double_of_int :: "int \<Rightarrow> double" where
  "double_of_int n = Double (of_int n)"

fun double_div :: "double \<Rightarrow> double \<Rightarrow> double" where
  "double_div (Double a) (Double b) =
     (if b = 0 then (if a = 0 then NaN else if 0 < a then PosInf else NegInf)
      else Double (round_double (a / b)))"
| "double_div NaN y = NaN"
| "double_div x NaN = NaN"
| "double_div (Double a) y = Double 0"
| "double_div PosInf (Double b) = (if b < 0 then NegInf else PosInf)"
| "double_div NegInf (Double b) = (if b < 0 then PosInf else NegInf)"
| "double_div x y = NaN"

fun double_mul :: "double \<Rightarrow> double \<Rightarrow> double" where
  "double_mul (Double a) (Double b) = Double (round_double (a * b))"
| "double_mul NaN y = NaN"
| "double_mul x NaN = NaN"
| "double_mul (Double a) PosInf = (if a = 0 then NaN else if 0 < a then PosInf else NegInf)"
| "double_mul (Double a) NegInf = (if a = 0 then NaN else if 0 < a then NegInf else PosInf)"
| "double_mul PosInf (Double b) = (if b = 0 then NaN else if 0 < b then PosInf else NegInf)"
| "double_mul NegInf (Double b) = (if b = 0 then NaN else if 0 < b then NegInf else PosInf)"
| "double_mul PosInf PosInf = PosInf"
| "double_mul PosInf NegInf = NegInf"
| "double_mul NegInf PosInf = NegInf"
| "double_mul NegInf NegInf = PosInf"

text \<open>\<open>x >= y\<close>; false whenever an operand is not a number.\<close>

fun double_ge :: "double \<Rightarrow> double \<Rightarrow> bool" where
  "double_ge (Double a) (Double b) = (b \<le> a)"
| "double_ge NaN y = False"
| "double_ge x NaN = False"
| "double_ge PosInf y = True"
| "double_ge x NegInf = True"
| "double_ge x y = False"

subsection \<open>The letter grade\<close>

text \<open>
  The ladder of \<^verbatim>\<open>enterGrades\<close> on
  \<^verbatim>\<open>double percentage = (double)marks / exam->totalMarks * 100\<close>.
\<close>

definition percentage_of :: "int \<Rightarrow> int \<Rightarrow> double" where
  "percentage_of marks totalMarks =
     double_mul (double_div (double_of_int marks) (double_of_int totalMarks)) (double_of_int 100)"

definition letterGrade_of :: "int \<Rightarrow> int \<Rightarrow> string" where
  "letterGrade_of marks totalMarks =
     (let percentage = percentage_of marks totalMarks
      in if double_ge percentage (double_of_int 90) then ''A+''
         else if double_ge percentage (double_of_int 85) then ''A''
         else if double_ge percentage (double_of_int 80) then ''A-''
         else if double_ge percentage (double_of_int 75) then ''B+''
         else if double_ge percentage (double_of_int 70) then ''B''
         else if double_ge percentage (double_of_int 65) then ''B-''
         else if double_ge percentage (double_of_int 60) then ''C+''
         else if double_ge percentage (double_of_int 55) then ''C''
         else if double_ge percentage (double_of_int 50) then ''C-''
         else ''F'')"

text \<open>
  The ladder in the words of the specification, on the exact percentage: thresholds
  90/85/80/75/70/65/60/55/50 in descending order, each band inclusive at its lower end,
  \<open>F\<close> below 50.
\<close>

definition ladder_spec :: "rat \<Rightarrow> string" where
  "ladder_spec pct =
     (if 90 \<le> pct then ''A+''
      else if 85 \<le> pct then ''A''
      else if 80 \<le> pct then ''A-''
      else if 75 \<le> pct then ''B+''
      else if 70 \<le> pct then ''B''
      else if 65 \<le> pct then ''B-''
      else if 60 \<le> pct then ''C+''
      else if 55 \<le> pct then ''C''
      else if 50 \<le> pct then ''C-''
      else ''F'')"

subsection \<open>\<^verbatim>\<open>UMSApplication::enterGrades\<close>\<close>

text \<open>
  The arguments are the identifier of the teacher logged in and the five values typed in;
  the first component of the result is the message printed. Every rejection returns the
  database as it was.
\<close>

definition enterGrades ::
  "string \<Rightarrow> string \<Rightarrow> string \<Rightarrow> string \<Rightarrow> int \<Rightarrow> string \<Rightarrow> DatabaseManager \<Rightarrow>
   string \<times> DatabaseManager" where
  "enterGrades currentUserId courseId examId studentId marks comments db =
     (case findCourse db courseId of
        None \<Rightarrow> (''Invalid course or not your course!'', db)
      | Some course \<Rightarrow>
          if Course_teacherId course \<noteq> currentUserId
          then (''Invalid course or not your course!'', db)
          else if getCourseExams db courseId = []
          then (''No exams found for this course!'', db)
          else
            (case findExam db examId of
               None \<Rightarrow> (''Invalid exam ID!'', db)
             | Some exam \<Rightarrow>
                 if Exam_courseId exam \<noteq> courseId then (''Invalid exam ID!'', db)
                 else if \<not> isStudentEnrolled db studentId courseId
                 then (''Student not enrolled in this course!'', db)
                 else if marks < 0 \<or> marks > Exam_totalMarks exam then (''Invalid marks!'', db)
                 else
                   (let letterGrade = letterGrade_of marks (Exam_totalMarks exam);
                        it = find_if (\<lambda>g. Grade_studentId g = studentId \<and> Grade_examId g = examId)
                               (grades db)
                    in if it \<noteq> length (grades db) then
                         (''Grade updated successfully!'',
                          db\<lparr>grades := (grades db)[it := (grades db ! it)
                                \<lparr>Grade_marksObtained := marks, Grade_letterGrade := letterGrade,
                                 Grade_comments := comments\<rparr>]\<rparr>)
                       else
                         (''Grade entered successfully!'',
                          db\<lparr>grades := grades db @
                                [\<lparr>Grade_studentId = studentId, Grade_examId = examId,
                                  Grade_marksObtained = marks, Grade_letterGrade = letterGrade,
                                  Grade_comments = comments\<rparr>]\<rparr>))))"

section \<open>Initial states\<close>

text \<open>
  The members of a \<^verbatim>\<open>DatabaseManager\<close> before anything is loaded, and the disk of a first
  run: no file exists yet and the users file can be created.
\<close>

definition empty_db :: DatabaseManager where
  "empty_db =
     \<lparr>users = [], departments = [], semesters = [], courses = [], exams = [], grades = [],
      enrollments = [], attendanceRecords = []\<rparr>"

definition no_files :: Disk where
  "no_files =
     \<lparr>USERS_FILE = None, USERS_FILE_writable = True, DEPARTMENTS_FILE = None,
      SEMESTERS_FILE = None, COURSES_FILE = None, EXAMS_FILE = None, GRADES_FILE = None,
      ENROLLMENTS_FILE = None, ATTENDANCE_FILE = None\<rparr>"


section \<open>Vocabulary of the grade entry\<close>

text \<open>The pair that the search of \<^verbatim>\<open>enterGrades\<close> compares.\<close>

definition grade_key :: "Grade \<Rightarrow> string \<times> string" where
  "grade_key g = (Grade_studentId g, Grade_examId g)"

text \<open>A call of \<^verbatim>\<open>enterGrades\<close> that passed every check: it printed one of the two final messages.\<close>

definition entry_accepted :: "string \<times> DatabaseManager \<Rightarrow> bool" where
  "entry_accepted r \<longleftrightarrow>
     fst r = ''Grade updated successfully!'' \<or> fst r = ''Grade entered successfully!''"

text \<open>
  A database with the first course, exam and enrollments of \<^verbatim>\<open>seedData\<close> and one grade of
  another student.
\<close>

definition seeded_db :: DatabaseManager where
  "seeded_db =
     empty_db
     \<lparr>courses :=
        [\<lparr>Course_courseId = ''CS101'', Course_courseName = ''Introduction to Computer Science'',
          Course_teacherId = ''TCH001'', Course_departmentId = ''CSE'',
          Course_semesterId = ''FALL2025'', Course_credits = 3,
          Course_schedule = ''Mon-Wed-Fri 9:00-10:00'', Course_maxStudents = 30\<rparr>],
      exams :=
        [\<lparr>Exam_examId = ''EX001'', Exam_courseId = ''CS101'', Exam_examName = ''Midterm Exam'',
          Exam_examDate = ''2025-10-15'', Exam_examTime = ''10:00-12:00'',
          Exam_examType = ''midterm'', Exam_totalMarks = 100\<rparr>],
      grades :=
        [\<lparr>Grade_studentId = ''STU002'', Grade_examId = ''EX001'', Grade_marksObtained = 92,
          Grade_letterGrade = ''A-'', Grade_comments = ''Excellent''\<rparr>],
      enrollments :=
        [\<lparr>Enrollment_studentId = ''STU001'', Enrollment_courseId = ''CS101'',
          Enrollment_grade = [], Enrollment_status = ''enrolled''\<rparr>,
         \<lparr>Enrollment_studentId = ''STU002'', Enrollment_courseId = ''CS101'',
          Enrollment_grade = [], Enrollment_status = ''enrolled''\<rparr>]\<rparr>"



section \<open>Properties of \<^verbatim>\<open>std::find_if\<close>\<close>

lemma find_if_le: "find_if P xs \<le> length xs"
  by (induction xs) auto

lemma find_if_nth: "find_if P xs < length xs \<Longrightarrow> P (xs ! find_if P xs)"
  by (induction xs) (auto split: if_splits)

lemma find_if_before: "i < find_if P xs \<Longrightarrow> \<not> P (xs ! i)"
proof (induction xs arbitrary: i)
  case Nil
  then show ?case by simp
next
  case (Cons x xs)
  then show ?case by (cases i) (auto split: if_splits)
qed

lemma find_if_end_iff: "find_if P xs = length xs \<longleftrightarrow> (\<forall>x \<in> set xs. \<not> P x)"
  by (induction xs) auto

lemma find_find_if:
  "find P xs = (if find_if P xs \<noteq> length xs then Some (xs ! find_if P xs) else None)"
  by (induction xs) auto

lemma filter_erase_nth:
  assumes "i < length xs" "\<not> Q (xs ! i)"
  shows "filter Q (take i xs @ drop (Suc i) xs) = filter Q xs"
proof -
  have "xs = take i xs @ xs ! i # drop (Suc i) xs"
    using assms(1) by (simp add: id_take_nth_drop)
  then have "filter Q xs = filter Q (take i xs @ xs ! i # drop (Suc i) xs)"
    by simp
  also have "\<dots> = filter Q (take i xs @ drop (Suc i) xs)"
    using assms(2) by simp
  finally show ?thesis by simp
qed

section \<open>The CSV codec\<close>

text \<open>
  Claim C1: for every entity kind, decoding the encoding of a record whose fields contain
  no comma gives the record back; in particular \<^verbatim>\<open>Grade::fromCSV(g.toCSV()) == g\<close> for
  every such grade, empty comments included.

  The code does not do this. The encoding of a grade without comments ends in a comma, the
  token loop yields no token after it, four tokens are fewer than the five required, and
  the decoder returns \<^verbatim>\<open>Grade()\<close>.
\<close>

theorem Grade_roundtrip_fails_on_empty_comments:
  "Grade_fromCSV (Grade_toCSV
      \<lparr>Grade_studentId = ''STU001'', Grade_examId = ''EX001'', Grade_marksObtained = 85,
       Grade_letterGrade = ''A'', Grade_comments = []\<rparr>) = Inr Grade_default
   \<and> Grade_default \<noteq>
      \<lparr>Grade_studentId = ''STU001'', Grade_examId = ''EX001'', Grade_marksObtained = 85,
       Grade_letterGrade = ''A'', Grade_comments = []\<rparr>"
  by code_simp

section \<open>The allocator\<close>

text \<open>
  Claim C2: \<^verbatim>\<open>generateNextId\<close> returns the prefix followed by the maximum suffix plus one,
  padded with zeros to at least three digits and wider, without truncation, when the number
  has more than three digits: for a maximum of 999 the prefix followed by \<open>1000\<close>.

  The code does not do this. For a maximum of 999 the text of the number has four
  characters, the count of zeros \<open>3 - 4\<close> wraps in \<^verbatim>\<open>size_t\<close>, and the fill constructor
  throws \<^verbatim>\<open>std::length_error\<close>.
\<close>

theorem generateNextId_throws_after_999:
  "generateNextId ''STU'' [''STU999''] = Inl LengthError"
  by code_simp

text \<open>
  Claim C5: for every prefix and every set of identifiers \<^verbatim>\<open>generateNextId\<close> produces an
  identifier that is not in the set; for \<open>STU001\<close> and \<open>STU003\<close> it is \<open>STU004\<close>.

  With an identifier numbered 999 or more in the set the code produces no identifier: the
  call ends in the exception of the fill constructor.
\<close>

theorem generateNextId_yields_no_identifier:
  "generateNextId ''EX'' [''EX001'', ''EX1000''] = Inl LengthError
   \<and> (\<forall>r. generateNextId ''EX'' [''EX001'', ''EX1000''] \<noteq> Inr r)"
proof -
  have "generateNextId ''EX'' [''EX001'', ''EX1000''] = Inl LengthError"
    by code_simp
  then show ?thesis by simp
qed

section \<open>Loading\<close>

text \<open>
  Claim C4: a line of a course, exam or grade file whose integer field is not a number
  fails to decode and is dropped, and no exception crosses the boundary of the store:
  loading a file with such a line completes.

  The code does not do this. \<^verbatim>\<open>std::stoi\<close> throws \<^verbatim>\<open>std::invalid_argument\<close>, neither
  \<^verbatim>\<open>Course::fromCSV\<close> nor \<^verbatim>\<open>loadCourses\<close> nor \<^verbatim>\<open>loadAllData\<close> catches it, and the
  exception leaves the store.
\<close>

theorem loadCourses_throws_on_non_numeric_credits:
  "Course_fromCSV ''CS101,Intro,TCH001,CSE,FALL2025,three,Mon 9:00,30'' = Inl InvalidArgument
   \<and> loadCourses (no_files\<lparr>COURSES_FILE := Some ''CS101,Intro,TCH001,CSE,FALL2025,three,Mon 9:00,30''\<rparr>)
       = Inl InvalidArgument
   \<and> fst (loadAllData (\<lambda>s. 0) 0
        (no_files\<lparr>COURSES_FILE := Some ''CS101,Intro,TCH001,CSE,FALL2025,three,Mon 9:00,30''\<rparr>))
       = Inl InvalidArgument"
  by code_simp

section \<open>Enrollment lookup\<close>

text \<open>
  Claim C8: \<^verbatim>\<open>isStudentEnrolled\<close> is true exactly when the enrollments hold a record for
  that student and course whose status is the string \<open>enrolled\<close>; records of the pair with
  status \<open>completed\<close> or \<open>dropped\<close> do not make it true.
\<close>

theorem isStudentEnrolled_iff:
  "(isStudentEnrolled db studentId courseId \<longleftrightarrow>
      (\<exists>e \<in> set (enrollments db).
         Enrollment_studentId e = studentId \<and> Enrollment_courseId e = courseId \<and>
         Enrollment_status e = ''enrolled''))
   \<and> ((\<forall>e \<in> set (enrollments db).
          Enrollment_studentId e = studentId \<and> Enrollment_courseId e = courseId \<longrightarrow>
          Enrollment_status e = ''completed'' \<or> Enrollment_status e = ''dropped'')
        \<longrightarrow> \<not> isStudentEnrolled db studentId courseId)"
  by (auto simp: isStudentEnrolled_def list_ex_iff)

theorem isStudentEnrolled_iff_witness:
  "isStudentEnrolled
     (empty_db\<lparr>enrollments :=
        [\<lparr>Enrollment_studentId = ''STU001'', Enrollment_courseId = ''CS101'',
          Enrollment_grade = [], Enrollment_status = ''dropped''\<rparr>,
         \<lparr>Enrollment_studentId = ''STU001'', Enrollment_courseId = ''CS101'',
          Enrollment_grade = [], Enrollment_status = ''enrolled''\<rparr>]\<rparr>) ''STU001'' ''CS101''
   \<and> \<not> isStudentEnrolled
     (empty_db\<lparr>enrollments :=
        [\<lparr>Enrollment_studentId = ''STU001'', Enrollment_courseId = ''CS101'',
          Enrollment_grade = [], Enrollment_status = ''dropped''\<rparr>,
         \<lparr>Enrollment_studentId = ''STU001'', Enrollment_courseId = ''CS101'',
          Enrollment_grade = ''A'', Enrollment_status = ''completed''\<rparr>]\<rparr>) ''STU001'' ''CS101''"
  using isStudentEnrolled_iff [of "empty_db\<lparr>enrollments :=
        [\<lparr>Enrollment_studentId = ''STU001'', Enrollment_courseId = ''CS101'',
          Enrollment_grade = [], Enrollment_status = ''dropped''\<rparr>,
         \<lparr>Enrollment_studentId = ''STU001'', Enrollment_courseId = ''CS101'',
          Enrollment_grade = [], Enrollment_status = ''enrolled''\<rparr>]\<rparr>" "''STU001''" "''CS101''"]
    isStudentEnrolled_iff [of "empty_db\<lparr>enrollments :=
        [\<lparr>Enrollment_studentId = ''STU001'', Enrollment_courseId = ''CS101'',
          Enrollment_grade = [], Enrollment_status = ''dropped''\<rparr>,
         \<lparr>Enrollment_studentId = ''STU001'', Enrollment_courseId = ''CS101'',
          Enrollment_grade = ''A'', Enrollment_status = ''completed''\<rparr>]\<rparr>" "''STU001''" "''CS101''"]
  by (simp add: empty_db_def)

section \<open>Deleting a user keeps the administrators\<close>

text \<open>
  Claim C10: deleting a user never removes a record whose role is \<open>admin\<close>. When the first
  record with the identifier typed in is an administrator the deletion is refused and the
  database is unchanged; the administrators of the collection are the same after every
  call; a call that changes the database erased one record, and its role is not \<open>admin\<close>.
\<close>

theorem deleteUser_never_removes_admin:
  "(find (\<lambda>u. User_id u = ident) (users db) = Some u \<and> User_role u = ''admin'' \<longrightarrow>
      deleteUser ident db = (''Cannot delete admin user!'', db))
   \<and> filter (\<lambda>u. User_role u = ''admin'') (users (snd (deleteUser ident db))) =
       filter (\<lambda>u. User_role u = ''admin'') (users db)
   \<and> (snd (deleteUser ident db) \<noteq> db \<longrightarrow>
        (\<exists>i < length (users db).
           User_id (users db ! i) = ident \<and> User_role (users db ! i) \<noteq> ''admin'' \<and>
           snd (deleteUser ident db) = db\<lparr>users := take i (users db) @ drop (Suc i) (users db)\<rparr>))"
proof (intro conjI impI)
  assume "find (\<lambda>u. User_id u = ident) (users db) = Some u \<and> User_role u = ''admin''"
  then show "deleteUser ident db = (''Cannot delete admin user!'', db)"
    by (auto simp: deleteUser_def Let_def find_find_if split: if_splits)
next
  let ?it = "find_if (\<lambda>u. User_id u = ident) (users db)"
  have "?it \<le> length (users db)" by (rule find_if_le)
  then show "filter (\<lambda>u. User_role u = ''admin'') (users (snd (deleteUser ident db))) =
       filter (\<lambda>u. User_role u = ''admin'') (users db)"
    by (auto simp: deleteUser_def Let_def filter_erase_nth simp del: filter_append)
next
  let ?it = "find_if (\<lambda>u. User_id u = ident) (users db)"
  assume changed: "snd (deleteUser ident db) \<noteq> db"
  then have ne: "?it \<noteq> length (users db)" and role: "User_role (users db ! ?it) \<noteq> ''admin''"
    by (auto simp: deleteUser_def Let_def split: if_splits)
  from ne have lt: "?it < length (users db)"
    using find_if_le [of "\<lambda>u. User_id u = ident" "users db"] by simp
  then have "User_id (users db ! ?it) = ident"
    using find_if_nth [of "\<lambda>u. User_id u = ident" "users db"] by simp
  moreover have "snd (deleteUser ident db) =
      db\<lparr>users := take ?it (users db) @ drop (Suc ?it) (users db)\<rparr>"
    using ne role by (simp add: deleteUser_def Let_def)
  ultimately show "\<exists>i < length (users db).
           User_id (users db ! i) = ident \<and> User_role (users db ! i) \<noteq> ''admin'' \<and>
           snd (deleteUser ident db) = db\<lparr>users := take i (users db) @ drop (Suc i) (users db)\<rparr>"
    using lt role by blast
qed

theorem deleteUser_never_removes_admin_witness:
  "deleteUser ''admin001''
     (empty_db\<lparr>users := [default_admin (\<lambda>s. 0) 0,
        User_new (\<lambda>s. 0) ''STU001'' ''student1'' ''pass123'' ''student'' ''Alice Johnson''
          ''alice.j@student.edu'' 0 [] [] []]\<rparr>)
   = (''Cannot delete admin user!'',
      empty_db\<lparr>users := [default_admin (\<lambda>s. 0) 0,
        User_new (\<lambda>s. 0) ''STU001'' ''student1'' ''pass123'' ''student'' ''Alice Johnson''
          ''alice.j@student.edu'' 0 [] [] []]\<rparr>)"
  using deleteUser_never_removes_admin [of "''admin001''"
     "empty_db\<lparr>users := [default_admin (\<lambda>s. 0) 0,
        User_new (\<lambda>s. 0) ''STU001'' ''student1'' ''pass123'' ''student'' ''Alice Johnson''
          ''alice.j@student.edu'' 0 [] [] []]\<rparr>" "default_admin (\<lambda>s. 0) 0"]
  by (simp add: default_admin_def User_new_def)

section \<open>What the loaders keep\<close>

lemma file_lines_missing: "file_lines None = []"
  by (simp add: file_lines_def)

lemma file_lines_empty: "file_lines (Some []) = []"
  by (simp add: file_lines_def getline_all_def)












text \<open>
  Claim C9: when the sequence read from the users file is empty, the missing file
  included, \<^verbatim>\<open>loadUsers\<close> leaves exactly one record, the default administrator with
  identifier \<open>admin001\<close>, user name \<open>admin\<close>, role \<open>admin\<close> and the digest of the fixed
  initial password, and saves it at once (the file then holds its line, provided the file
  can be opened for writing). For every other entity kind an empty or missing file loads
  as the empty collection.
\<close>

theorem loadUsers_synthesizes_default_admin:
  "(load_lines User_fromCSV (file_lines (USERS_FILE disk)) = [] \<longrightarrow>
      fst (loadUsers hasher now disk) = [default_admin hasher now]
      \<and> (USERS_FILE_writable disk \<longrightarrow>
           USERS_FILE (snd (loadUsers hasher now disk)) =
             Some (User_toCSV (default_admin hasher now) @ [CHR 0x0A])))
   \<and> (USERS_FILE disk = None \<or> USERS_FILE disk = Some [] \<longrightarrow>
        load_lines User_fromCSV (file_lines (USERS_FILE disk)) = [])
   \<and> User_id (default_admin hasher now) = ''admin001''
   \<and> User_username (default_admin hasher now) = ''admin''
   \<and> User_role (default_admin hasher now) = ''admin''
   \<and> User_passwordHash (default_admin hasher now) = SimpleHash_hash hasher ''admin123''
   \<and> (DEPARTMENTS_FILE disk = None \<or> DEPARTMENTS_FILE disk = Some [] \<longrightarrow> loadDepartments disk = [])
   \<and> (SEMESTERS_FILE disk = None \<or> SEMESTERS_FILE disk = Some [] \<longrightarrow> loadSemesters disk = [])
   \<and> (COURSES_FILE disk = None \<or> COURSES_FILE disk = Some [] \<longrightarrow> loadCourses disk = Inr [])
   \<and> (EXAMS_FILE disk = None \<or> EXAMS_FILE disk = Some [] \<longrightarrow> loadExams disk = Inr [])
   \<and> (GRADES_FILE disk = None \<or> GRADES_FILE disk = Some [] \<longrightarrow> loadGrades disk = Inr [])
   \<and> (ENROLLMENTS_FILE disk = None \<or> ENROLLMENTS_FILE disk = Some [] \<longrightarrow> loadEnrollments disk = [])
   \<and> (ATTENDANCE_FILE disk = None \<or> ATTENDANCE_FILE disk = Some [] \<longrightarrow> loadAttendance disk = [])"
proof -
  have users: "load_lines User_fromCSV (file_lines (USERS_FILE disk)) = [] \<longrightarrow>
      fst (loadUsers hasher now disk) = [default_admin hasher now]
      \<and> (USERS_FILE_writable disk \<longrightarrow>
           USERS_FILE (snd (loadUsers hasher now disk)) =
             Some (User_toCSV (default_admin hasher now) @ [CHR 0x0A]))"
    by (simp add: loadUsers_def saveUsers_def)
  have none: "USERS_FILE disk = None \<or> USERS_FILE disk = Some [] \<longrightarrow>
        load_lines User_fromCSV (file_lines (USERS_FILE disk)) = []"
    by (auto simp: file_lines_missing file_lines_empty)
  have admin: "User_id (default_admin hasher now) = ''admin001''"
    "User_username (default_admin hasher now) = ''admin''"
    "User_role (default_admin hasher now) = ''admin''"
    "User_passwordHash (default_admin hasher now) = SimpleHash_hash hasher ''admin123''"
    by (simp_all add: default_admin_def User_new_def)
  have others:
    "DEPARTMENTS_FILE disk = None \<or> DEPARTMENTS_FILE disk = Some [] \<longrightarrow> loadDepartments disk = []"
    "SEMESTERS_FILE disk = None \<or> SEMESTERS_FILE disk = Some [] \<longrightarrow> loadSemesters disk = []"
    "COURSES_FILE disk = None \<or> COURSES_FILE disk = Some [] \<longrightarrow> loadCourses disk = Inr []"
    "EXAMS_FILE disk = None \<or> EXAMS_FILE disk = Some [] \<longrightarrow> loadExams disk = Inr []"
    "GRADES_FILE disk = None \<or> GRADES_FILE disk = Some [] \<longrightarrow> loadGrades disk = Inr []"
    "ENROLLMENTS_FILE disk = None \<or> ENROLLMENTS_FILE disk = Some [] \<longrightarrow> loadEnrollments disk = []"
    "ATTENDANCE_FILE disk = None \<or> ATTENDANCE_FILE disk = Some [] \<longrightarrow> loadAttendance disk = []"
    by (auto simp: loadDepartments_def loadSemesters_def loadCourses_def loadExams_def
        loadGrades_def loadEnrollments_def loadAttendance_def file_lines_missing file_lines_empty)
  from users none admin others show ?thesis by blast
qed

theorem loadUsers_synthesizes_default_admin_witness:
  "fst (loadUsers (\<lambda>s. 0) 1761800000 no_files) = [default_admin (\<lambda>s. 0) 1761800000]
   \<and> USERS_FILE (snd (loadUsers (\<lambda>s. 0) 1761800000 no_files)) =
       Some (''admin001,admin,0,admin,System Administrator,admin@university.edu,,,,1761800000'' @ [CHR 0x0A])
   \<and> loadDepartments no_files = [] \<and> loadCourses no_files = Inr []"
proof -
  have a: "load_lines User_fromCSV (file_lines (USERS_FILE no_files)) = []"
    by (simp add: no_files_def file_lines_def)
  have w: "USERS_FILE_writable no_files"
    by (simp add: no_files_def)
  have d: "DEPARTMENTS_FILE no_files = None" "COURSES_FILE no_files = None"
    by (simp_all add: no_files_def)
  have t: "User_toCSV (default_admin (\<lambda>s. 0) 1761800000) =
      ''admin001,admin,0,admin,System Administrator,admin@university.edu,,,,1761800000''"
    by code_simp
  from loadUsers_synthesizes_default_admin [of no_files "\<lambda>s. 0" 1761800000] a w d t
  show ?thesis by simp
qed

section \<open>Entering a grade twice\<close>

lemma filter_key_unique:
  "distinct (map key xs) \<Longrightarrow> i < length xs \<Longrightarrow> key (xs ! i) = k \<Longrightarrow>
   filter (\<lambda>x. key x = k) xs = [xs ! i]"
proof (induction xs arbitrary: i)
  case Nil
  then show ?case by simp
next
  case (Cons x xs)
  show ?case
  proof (cases i)
    case 0
    from Cons.prems(1) have "key x \<notin> key ` set xs" by simp
    moreover from 0 Cons.prems(3) have "key x = k" by simp
    ultimately have "\<forall>y \<in> set xs. key y \<noteq> k" by blast
    then have "filter (\<lambda>x. key x = k) xs = []" by (simp add: filter_empty_conv)
    with 0 Cons.prems show ?thesis by simp
  next
    case (Suc j)
    with Cons.prems have j: "j < length xs" "key (xs ! j) = k" "distinct (map key xs)"
      by auto
    then have "xs ! j \<in> set xs" by simp
    with Cons.prems(1) j(2) have "key x \<noteq> k" by (auto simp: image_iff)
    with Cons.IH [OF j(3) j(1) j(2)] Suc show ?thesis by simp
  qed
qed

lemma filter_list_update_other:
  assumes "i < length xs" "\<not> Q (xs ! i)" "\<not> Q y"
  shows "filter Q (xs[i := y]) = filter Q xs"
proof -
  have "filter Q (xs[i := y]) = filter Q (take i xs @ y # drop (Suc i) xs)"
    using assms(1) by (simp add: upd_conv_take_nth_drop)
  also have "\<dots> = filter Q (take i xs @ xs ! i # drop (Suc i) xs)"
    using assms(2,3) by simp
  also have "\<dots> = filter Q xs"
    using assms(1) by (simp add: id_take_nth_drop [symmetric])
  finally show ?thesis .
qed


lemma grade_update_eq:
  "Grade_studentId g = sid \<Longrightarrow> Grade_examId g = eid \<Longrightarrow>
   g\<lparr>Grade_marksObtained := m, Grade_letterGrade := lg, Grade_comments := c\<rparr> =
   \<lparr>Grade_studentId = sid, Grade_examId = eid, Grade_marksObtained = m,
    Grade_letterGrade = lg, Grade_comments = c\<rparr>"
  by (cases g) simp

lemma upsert_update:
  assumes inv: "distinct (map grade_key gs)"
    and it: "it = find_if (\<lambda>g. Grade_studentId g = sid \<and> Grade_examId g = eid) gs"
    and found: "it \<noteq> length gs"
    and gs': "gs' = gs[it := (gs ! it)
                \<lparr>Grade_marksObtained := m, Grade_letterGrade := lg, Grade_comments := c\<rparr>]"
  shows "map grade_key gs' = map grade_key gs"
    and "filter (\<lambda>g. grade_key g = (sid, eid)) gs' =
           [\<lparr>Grade_studentId = sid, Grade_examId = eid, Grade_marksObtained = m,
             Grade_letterGrade = lg, Grade_comments = c\<rparr>]"
    and "filter (\<lambda>g. grade_key g \<noteq> (sid, eid)) gs' = filter (\<lambda>g. grade_key g \<noteq> (sid, eid)) gs"
proof -
  have lt: "it < length gs"
    using found find_if_le [of "\<lambda>g. Grade_studentId g = sid \<and> Grade_examId g = eid" gs] it
    by simp
  then have hit: "Grade_studentId (gs ! it) = sid \<and> Grade_examId (gs ! it) = eid"
    using find_if_nth [of "\<lambda>g. Grade_studentId g = sid \<and> Grade_examId g = eid" gs] it by simp
  have new: "gs' ! it = \<lparr>Grade_studentId = sid, Grade_examId = eid, Grade_marksObtained = m,
             Grade_letterGrade = lg, Grade_comments = c\<rparr>"
    using lt hit gs' by (simp add: grade_update_eq)
  have key_old: "grade_key (gs ! it) = (sid, eid)"
    using hit by (simp add: grade_key_def)
  have key_new: "grade_key (gs' ! it) = (sid, eid)"
    using new by (simp add: grade_key_def)
  have "map grade_key gs' = (map grade_key gs)[it := grade_key (gs' ! it)]"
    using lt gs' by (simp add: map_update)
  also have "\<dots> = (map grade_key gs)[it := map grade_key gs ! it]"
    using lt key_old key_new by simp
  also have "\<dots> = map grade_key gs"
    by (rule list_update_id)
  finally show keys: "map grade_key gs' = map grade_key gs" .
  have "distinct (map grade_key gs')" "it < length gs'"
    using keys inv lt gs' by simp_all
  from filter_key_unique [OF this key_new] new
  show "filter (\<lambda>g. grade_key g = (sid, eid)) gs' =
           [\<lparr>Grade_studentId = sid, Grade_examId = eid, Grade_marksObtained = m,
             Grade_letterGrade = lg, Grade_comments = c\<rparr>]"
    by simp
  have "gs' = gs[it := gs' ! it]"
    using lt gs' by simp
  then have "filter (\<lambda>g. grade_key g \<noteq> (sid, eid)) gs' =
      filter (\<lambda>g. grade_key g \<noteq> (sid, eid)) (gs[it := gs' ! it])"
    by simp
  also have "\<dots> = filter (\<lambda>g. grade_key g \<noteq> (sid, eid)) gs"
    using lt key_old key_new by (intro filter_list_update_other) simp_all
  finally show "filter (\<lambda>g. grade_key g \<noteq> (sid, eid)) gs' =
      filter (\<lambda>g. grade_key g \<noteq> (sid, eid)) gs" .
qed

lemma upsert_append:
  assumes inv: "distinct (map grade_key gs)"
    and absent: "find_if (\<lambda>g. Grade_studentId g = sid \<and> Grade_examId g = eid) gs = length gs"
    and new: "new = \<lparr>Grade_studentId = sid, Grade_examId = eid, Grade_marksObtained = m,
             Grade_letterGrade = lg, Grade_comments = c\<rparr>"
  shows "distinct (map grade_key (gs @ [new]))"
    and "filter (\<lambda>g. grade_key g = (sid, eid)) (gs @ [new]) = [new]"
    and "filter (\<lambda>g. grade_key g \<noteq> (sid, eid)) (gs @ [new]) =
           filter (\<lambda>g. grade_key g \<noteq> (sid, eid)) gs"
    and "\<forall>g \<in> set gs. grade_key g \<noteq> (sid, eid)"
proof -
  from absent have none: "\<forall>g \<in> set gs. \<not> (Grade_studentId g = sid \<and> Grade_examId g = eid)"
    by (simp add: find_if_end_iff)
  then show no_key: "\<forall>g \<in> set gs. grade_key g \<noteq> (sid, eid)"
    by (simp add: grade_key_def)
  have key_new: "grade_key new = (sid, eid)"
    using new by (simp add: grade_key_def)
  show "distinct (map grade_key (gs @ [new]))"
    using inv no_key key_new by (auto simp: image_iff)
  have "filter (\<lambda>g. grade_key g = (sid, eid)) gs = []"
    using no_key by (simp add: filter_empty_conv)
  then show "filter (\<lambda>g. grade_key g = (sid, eid)) (gs @ [new]) = [new]"
    using key_new by simp
  show "filter (\<lambda>g. grade_key g \<noteq> (sid, eid)) (gs @ [new]) =
           filter (\<lambda>g. grade_key g \<noteq> (sid, eid)) gs"
    using key_new by simp
qed

lemma enterGrades_accepted:
  assumes "entry_accepted (enterGrades cur cid eid sid m c db)"
  shows "\<exists>exam. findExam db eid = Some exam \<and> 0 \<le> m \<and> m \<le> Exam_totalMarks exam \<and>
     enterGrades cur cid eid sid m c db =
       (if find_if (\<lambda>g. Grade_studentId g = sid \<and> Grade_examId g = eid) (grades db)
             \<noteq> length (grades db)
        then (''Grade updated successfully!'',
              db\<lparr>grades := (grades db)
                 [find_if (\<lambda>g. Grade_studentId g = sid \<and> Grade_examId g = eid) (grades db) :=
                    (grades db ! find_if (\<lambda>g. Grade_studentId g = sid \<and> Grade_examId g = eid) (grades db))
                    \<lparr>Grade_marksObtained := m,
                     Grade_letterGrade := letterGrade_of m (Exam_totalMarks exam),
                     Grade_comments := c\<rparr>]\<rparr>)
        else (''Grade entered successfully!'',
              db\<lparr>grades := grades db @
                 [\<lparr>Grade_studentId = sid, Grade_examId = eid, Grade_marksObtained = m,
                   Grade_letterGrade = letterGrade_of m (Exam_totalMarks exam),
                   Grade_comments = c\<rparr>]\<rparr>))"
  using assms
  by (auto simp: enterGrades_def entry_accepted_def Let_def split: option.splits if_splits)

lemma enterGrades_exams: "exams (snd (enterGrades cur cid eid sid m c db)) = exams db"
  by (auto simp: enterGrades_def Let_def split: option.splits)


lemma enterGrades_once:
  assumes inv: "distinct (map grade_key (grades db))"
    and acc: "entry_accepted (enterGrades cur cid eid sid m c db)"
  shows "\<exists>exam. findExam db eid = Some exam \<and>
     distinct (map grade_key (grades (snd (enterGrades cur cid eid sid m c db)))) \<and>
     filter (\<lambda>g. grade_key g = (sid, eid)) (grades (snd (enterGrades cur cid eid sid m c db))) =
       [\<lparr>Grade_studentId = sid, Grade_examId = eid, Grade_marksObtained = m,
         Grade_letterGrade = letterGrade_of m (Exam_totalMarks exam), Grade_comments = c\<rparr>] \<and>
     filter (\<lambda>g. grade_key g \<noteq> (sid, eid)) (grades (snd (enterGrades cur cid eid sid m c db))) =
       filter (\<lambda>g. grade_key g \<noteq> (sid, eid)) (grades db) \<and>
     ((\<exists>g \<in> set (grades db). grade_key g = (sid, eid)) \<longrightarrow>
        fst (enterGrades cur cid eid sid m c db) = ''Grade updated successfully!'' \<and>
        map grade_key (grades (snd (enterGrades cur cid eid sid m c db))) =
          map grade_key (grades db))"
proof -
  let ?P = "\<lambda>g. Grade_studentId g = sid \<and> Grade_examId g = eid"
  let ?it = "find_if ?P (grades db)"
  from enterGrades_accepted [OF acc] obtain exam where
    exam: "findExam db eid = Some exam" and
    res: "enterGrades cur cid eid sid m c db =
       (if ?it \<noteq> length (grades db)
        then (''Grade updated successfully!'',
              db\<lparr>grades := (grades db)[?it := (grades db ! ?it)
                    \<lparr>Grade_marksObtained := m,
                     Grade_letterGrade := letterGrade_of m (Exam_totalMarks exam),
                     Grade_comments := c\<rparr>]\<rparr>)
        else (''Grade entered successfully!'',
              db\<lparr>grades := grades db @
                 [\<lparr>Grade_studentId = sid, Grade_examId = eid, Grade_marksObtained = m,
                   Grade_letterGrade = letterGrade_of m (Exam_totalMarks exam),
                   Grade_comments = c\<rparr>]\<rparr>))"
    by blast
  show ?thesis
  proof (cases "?it \<noteq> length (grades db)")
    case True
    from upsert_update
        [where m = m and lg = "letterGrade_of m (Exam_totalMarks exam)" and c = c,
         OF inv refl True refl]
      inv exam res True
    show ?thesis by simp
  next
    case False
    then have absent: "?it = length (grades db)" by simp
    from upsert_append
        [where m = m and lg = "letterGrade_of m (Exam_totalMarks exam)" and c = c,
         OF inv absent refl]
      exam res absent
    show ?thesis by simp
  qed
qed

text \<open>
  Claim C7: in a state with at most one grade per pair of student and exam, entering a
  grade for a pair that has a record updates marks, letter grade and comments of that
  record in place and appends nothing: the sequence of pairs is the same before and after.
  After two accepted entries for the same pair with different values there is exactly one
  record of the pair, it holds the values of the second entry, the records of the other
  pairs are as before, and there is still at most one grade per pair.
\<close>

theorem enterGrades_upsert:
  assumes "distinct (map grade_key (grades db))"
    and "entry_accepted (enterGrades cur cid eid sid m1 c1 db)"
    and "entry_accepted (enterGrades cur cid eid sid m2 c2
           (snd (enterGrades cur cid eid sid m1 c1 db)))"
  shows "\<exists>exam. findExam db eid = Some exam \<and>
     distinct (map grade_key (grades (snd (enterGrades cur cid eid sid m1 c1 db)))) \<and>
     distinct (map grade_key (grades (snd (enterGrades cur cid eid sid m2 c2
        (snd (enterGrades cur cid eid sid m1 c1 db)))))) \<and>
     filter (\<lambda>g. grade_key g = (sid, eid)) (grades (snd (enterGrades cur cid eid sid m1 c1 db))) =
       [\<lparr>Grade_studentId = sid, Grade_examId = eid, Grade_marksObtained = m1,
         Grade_letterGrade = letterGrade_of m1 (Exam_totalMarks exam), Grade_comments = c1\<rparr>] \<and>
     filter (\<lambda>g. grade_key g = (sid, eid)) (grades (snd (enterGrades cur cid eid sid m2 c2
        (snd (enterGrades cur cid eid sid m1 c1 db))))) =
       [\<lparr>Grade_studentId = sid, Grade_examId = eid, Grade_marksObtained = m2,
         Grade_letterGrade = letterGrade_of m2 (Exam_totalMarks exam), Grade_comments = c2\<rparr>] \<and>
     fst (enterGrades cur cid eid sid m2 c2 (snd (enterGrades cur cid eid sid m1 c1 db))) =
       ''Grade updated successfully!'' \<and>
     map grade_key (grades (snd (enterGrades cur cid eid sid m2 c2
        (snd (enterGrades cur cid eid sid m1 c1 db))))) =
       map grade_key (grades (snd (enterGrades cur cid eid sid m1 c1 db))) \<and>
     filter (\<lambda>g. grade_key g \<noteq> (sid, eid)) (grades (snd (enterGrades cur cid eid sid m2 c2
        (snd (enterGrades cur cid eid sid m1 c1 db))))) =
       filter (\<lambda>g. grade_key g \<noteq> (sid, eid)) (grades db) \<and>
     ((\<exists>g \<in> set (grades db). grade_key g = (sid, eid)) \<longrightarrow>
        fst (enterGrades cur cid eid sid m1 c1 db) = ''Grade updated successfully!'' \<and>
        map grade_key (grades (snd (enterGrades cur cid eid sid m1 c1 db))) =
          map grade_key (grades db))"
proof -
  let ?r1 = "enterGrades cur cid eid sid m1 c1 db"
  let ?r2 = "enterGrades cur cid eid sid m2 c2 (snd ?r1)"
  let ?k = "\<lambda>g. grade_key g = (sid, eid)"
  from enterGrades_once [OF assms(1) assms(2)] obtain exam where
    exam: "findExam db eid = Some exam" and
    inv1: "distinct (map grade_key (grades (snd ?r1)))" and
    one1: "filter ?k (grades (snd ?r1)) =
       [\<lparr>Grade_studentId = sid, Grade_examId = eid, Grade_marksObtained = m1,
         Grade_letterGrade = letterGrade_of m1 (Exam_totalMarks exam), Grade_comments = c1\<rparr>]" and
    rest1: "filter (\<lambda>g. \<not> ?k g) (grades (snd ?r1)) = filter (\<lambda>g. \<not> ?k g) (grades db)" and
    upd1: "(\<exists>g \<in> set (grades db). ?k g) \<longrightarrow>
        fst ?r1 = ''Grade updated successfully!'' \<and>
        map grade_key (grades (snd ?r1)) = map grade_key (grades db)"
    by blast
  have same_exam: "findExam (snd ?r1) eid = Some exam"
    using exam by (simp add: findExam_def enterGrades_exams)
  from one1 have "filter ?k (grades (snd ?r1)) \<noteq> []" by simp
  then have present: "\<exists>g \<in> set (grades (snd ?r1)). ?k g"
    by (simp add: filter_empty_conv)
  from enterGrades_once [OF inv1 assms(3)] same_exam present
  have inv2: "distinct (map grade_key (grades (snd ?r2)))" and
    one2: "filter ?k (grades (snd ?r2)) =
       [\<lparr>Grade_studentId = sid, Grade_examId = eid, Grade_marksObtained = m2,
         Grade_letterGrade = letterGrade_of m2 (Exam_totalMarks exam), Grade_comments = c2\<rparr>]" and
    rest2: "filter (\<lambda>g. \<not> ?k g) (grades (snd ?r2)) = filter (\<lambda>g. \<not> ?k g) (grades (snd ?r1))" and
    upd2: "fst ?r2 = ''Grade updated successfully!''"
      "map grade_key (grades (snd ?r2)) = map grade_key (grades (snd ?r1))"
    by auto
  from exam inv1 inv2 one1 one2 upd2 rest1 rest2 upd1 show ?thesis
    by simp
qed

theorem enterGrades_upsert_witness:
  "distinct (map grade_key (grades seeded_db))
   \<and> entry_accepted (enterGrades ''TCH001'' ''CS101'' ''EX001'' ''STU001'' 85 [] seeded_db)
   \<and> entry_accepted (enterGrades ''TCH001'' ''CS101'' ''EX001'' ''STU001'' 92 ''Excellent''
        (snd (enterGrades ''TCH001'' ''CS101'' ''EX001'' ''STU001'' 85 [] seeded_db)))
   \<and> filter (\<lambda>g. grade_key g = (''STU001'', ''EX001''))
        (grades (snd (enterGrades ''TCH001'' ''CS101'' ''EX001'' ''STU001'' 92 ''Excellent''
           (snd (enterGrades ''TCH001'' ''CS101'' ''EX001'' ''STU001'' 85 [] seeded_db))))) =
       [\<lparr>Grade_studentId = ''STU001'', Grade_examId = ''EX001'', Grade_marksObtained = 92,
         Grade_letterGrade = ''A+'', Grade_comments = ''Excellent''\<rparr>]
   \<and> map grade_key (grades (snd (enterGrades ''TCH001'' ''CS101'' ''EX001'' ''STU001'' 92 ''Excellent''
        (snd (enterGrades ''TCH001'' ''CS101'' ''EX001'' ''STU001'' 85 [] seeded_db))))) =
      map grade_key (grades (snd (enterGrades ''TCH001'' ''CS101'' ''EX001'' ''STU001'' 85 [] seeded_db)))"
proof -
  have h1: "distinct (map grade_key (grades seeded_db))"
    by code_simp
  have h2: "entry_accepted (enterGrades ''TCH001'' ''CS101'' ''EX001'' ''STU001'' 85 [] seeded_db)"
    by code_simp
  have h3: "entry_accepted (enterGrades ''TCH001'' ''CS101'' ''EX001'' ''STU001'' 92 ''Excellent''
        (snd (enterGrades ''TCH001'' ''CS101'' ''EX001'' ''STU001'' 85 [] seeded_db)))"
    by code_simp
  have total: "map_option Exam_totalMarks (findExam seeded_db ''EX001'') = Some 100"
    by code_simp
  have lg: "letterGrade_of 92 100 = ''A+''"
    by code_simp
  from enterGrades_upsert [OF h1 h2 h3] total lg h1 h2 h3 show ?thesis
    by auto
qed

section \<open>The letter grade in \<^verbatim>\<open>double\<close> and in exact arithmetic\<close>

subsection \<open>The exponent\<close>

lemma bit_length_bounds:
  "0 < n \<Longrightarrow> 1 \<le> bit_length n \<and> 2 ^ nat (bit_length n - 1) \<le> n \<and> n < 2 ^ nat (bit_length n)"
proof (induction n rule: bit_length.induct)
  case (1 n)
  show ?case
  proof (cases "n div 2 = 0")
    case True
    with "1.prems" have n: "n = 1" by presburger
    have "bit_length 1 = 1"
      by (simp add: bit_length.simps [of 1] bit_length.simps [of 0])
    with n show ?thesis by simp
  next
    case False
    with "1.prems" have h: "0 < n div 2" by presburger
    from "1.prems" have bl: "bit_length n = 1 + bit_length (n div 2)"
      by (simp add: bit_length.simps [of n])
    from "1.IH" "1.prems" h have IH:
      "1 \<le> bit_length (n div 2)"
      "2 ^ nat (bit_length (n div 2) - 1) \<le> n div 2"
      "n div 2 < 2 ^ nat (bit_length (n div 2))"
      by simp_all
    define b where "b = nat (bit_length (n div 2) - 1)"
    have b: "nat (bit_length (n div 2)) = Suc b" "nat (bit_length n - 1) = Suc b"
      "nat (bit_length n) = Suc (Suc b)"
      using IH(1) bl by (simp_all add: b_def)
    from IH(2) have "2 ^ b \<le> n div 2"
      by (simp add: b_def)
    moreover from IH(3) have "n div 2 < 2 ^ Suc b"
      by (simp add: b(1))
    ultimately have "2 ^ b \<le> n div 2" "n div 2 < 2 ^ Suc b" .
    then have *: "2 ^ Suc b \<le> n" "n < 2 ^ Suc (Suc b)"
      by simp_all
    have "1 \<le> bit_length n" using bl IH(1) by simp
    moreover have "2 ^ nat (bit_length n - 1) \<le> n" using *(1) by (simp only: b(2))
    moreover have "n < 2 ^ nat (bit_length n)" using *(2) by (simp only: b(3))
    ultimately show ?thesis by blast
  qed
qed

lemma powi_two_nat: "0 \<le> e \<Longrightarrow> (2::rat) powi e = of_int (2 ^ nat e)"
  by (simp add: power_int_nonneg_exp)

lemma binade_bounds:
  assumes "0 < x"
  shows "2 powi binade x \<le> x \<and> x < 2 powi (binade x + 1)"
proof -
  obtain p q where pq: "quotient_of x = (p, q)" by (cases "quotient_of x")
  then have q: "0 < q" by (rule quotient_of_denom_pos)
  from pq have x: "x = of_int p / of_int q" by (rule quotient_of_div)
  with assms q have p: "0 < p" by (simp add: zero_less_divide_iff)
  define bp where "bp = bit_length p"
  define bq where "bq = bit_length q"
  from bit_length_bounds [OF p] have bp: "1 \<le> bp" "2 ^ nat (bp - 1) \<le> p" "p < 2 ^ nat bp"
    by (simp_all add: bp_def)
  from bit_length_bounds [OF q] have bq: "1 \<le> bq" "2 ^ nat (bq - 1) \<le> q" "q < 2 ^ nat bq"
    by (simp_all add: bq_def)
  have P: "(2::rat) powi (bp - 1) \<le> of_int p" "(of_int p :: rat) < 2 powi bp"
    using bp by (simp_all add: powi_two_nat of_int_le_iff of_int_less_iff del: of_int_power)
  have Q: "(2::rat) powi (bq - 1) \<le> of_int q" "(of_int q :: rat) < 2 powi bq"
    using bq by (simp_all add: powi_two_nat of_int_le_iff of_int_less_iff del: of_int_power)
  have qpos: "(0::rat) < of_int q" using q by simp
  have upper: "x < 2 powi (bp - bq + 1)"
  proof -
    have "x * 2 powi (bq - 1) \<le> x * of_int q"
      using Q(1) assms by (intro mult_left_mono) simp_all
    also have "\<dots> = of_int p" using x qpos by simp
    also have "\<dots> < 2 powi bp" by (rule P(2))
    also have "\<dots> = 2 powi (bp - bq + 1) * 2 powi (bq - 1)"
      by (simp flip: power_int_add)
    finally show ?thesis by simp
  qed
  have lower: "2 powi (bp - bq - 1) < x"
  proof -
    have "(2::rat) powi (bp - bq - 1) * of_int q < 2 powi (bp - bq - 1) * 2 powi bq"
      using Q(2) by (intro mult_strict_left_mono) simp_all
    also have "\<dots> = 2 powi (bp - 1)"
      by (simp flip: power_int_add)
    also have "\<dots> \<le> of_int p" by (rule P(1))
    also have "\<dots> = x * of_int q" using x qpos by simp
    finally show ?thesis using qpos by simp
  qed
  have bin: "binade x = (if 2 powi (bp - bq) \<le> x then bp - bq else bp - bq - 1)"
    using assms pq by (simp add: binade_def bp_def bq_def)
  show ?thesis
  proof (cases "(2::rat) powi (bp - bq) \<le> x")
    case True
    with bin upper show ?thesis by simp
  next
    case False
    with bin lower show ?thesis by simp
  qed
qed

lemma binade_mono:
  assumes "0 < x" "x \<le> y"
  shows "binade x \<le> binade y"
proof -
  from assms have y: "0 < y" by simp
  have "(2::rat) powi binade x \<le> x" using binade_bounds [OF assms(1)] by simp
  also have "\<dots> \<le> y" by fact
  also have "\<dots> < 2 powi (binade y + 1)" using binade_bounds [OF y] by simp
  finally have "(2::rat) powi binade x < 2 powi (binade y + 1)" .
  then have "binade x < binade y + 1"
    by (metis linorder_not_less power_int_increasing one_le_numeral)
  then show ?thesis by simp
qed

subsection \<open>Rounding is monotone\<close>

lemma round_even_of_int: "round_even (of_int a) = a"
  by (simp add: round_even_def)

lemma round_even_bounds: "\<lfloor>x\<rfloor> \<le> round_even x \<and> round_even x \<le> \<lfloor>x\<rfloor> + 1"
  by (simp add: round_even_def Let_def)

lemma round_even_mono:
  assumes "x \<le> y"
  shows "round_even x \<le> round_even y"
proof (cases "\<lfloor>x\<rfloor> = \<lfloor>y\<rfloor>")
  case True
  from assms have "x - of_int \<lfloor>x\<rfloor> \<le> y - of_int \<lfloor>x\<rfloor>" by simp
  with True show ?thesis
    by (auto simp: round_even_def Let_def)
next
  case False
  with assms have "\<lfloor>x\<rfloor> < \<lfloor>y\<rfloor>"
    using floor_mono [of x y] by simp
  then have "round_even x \<le> \<lfloor>y\<rfloor>"
    using round_even_bounds [of x] by simp
  also have "\<dots> \<le> round_even y"
    using round_even_bounds [of y] by simp
  finally show ?thesis .
qed

lemma round_even_ge: "of_int a \<le> x \<Longrightarrow> a \<le> round_even x"
  using round_even_mono [of "of_int a" x] by (simp add: round_even_of_int)

lemma round_even_le: "x \<le> of_int b \<Longrightarrow> round_even x \<le> b"
  using round_even_mono [of x "of_int b"] by (simp add: round_even_of_int)

lemma round_double_pos_bounds:
  assumes "0 < x"
  shows "2 powi binade x \<le> round_double x \<and> round_double x \<le> 2 powi (binade x + 1)"
proof -
  define e where "e = binade x"
  define ulp :: rat where "ulp = 2 powi (e - 52)"
  have ulp: "0 < ulp" by (simp add: ulp_def)
  have rd: "round_double x = of_int (round_even (x / ulp)) * ulp"
    using assms by (simp add: round_double_def Let_def ulp_def e_def)
  have lo: "2 powi e = of_int (2 ^ 52) * ulp" and hi: "2 powi (e + 1) = of_int (2 ^ 53) * ulp"
    unfolding ulp_def
    using power_int_add [of "2::rat" 52 "e - 52"] power_int_add [of "2::rat" 53 "e - 52"]
    by (simp_all add: add.commute)
  from binade_bounds [OF assms] have "2 powi e \<le> x" "x < 2 powi (e + 1)"
    by (simp_all add: e_def)
  then have q: "of_int (2 ^ 52) \<le> x / ulp" "x / ulp \<le> of_int (2 ^ 53)"
    using ulp by (simp_all add: lo hi pos_le_divide_eq pos_divide_le_eq)
  have "2 ^ 52 \<le> round_even (x / ulp)"
    using q(1) by (rule round_even_ge)
  moreover have "round_even (x / ulp) \<le> 2 ^ 53"
    using q(2) by (rule round_even_le)
  ultimately have "2 ^ 52 \<le> round_even (x / ulp)" "round_even (x / ulp) \<le> 2 ^ 53" .
  then have "(of_int (2 ^ 52) :: rat) \<le> of_int (round_even (x / ulp))"
      "(of_int (round_even (x / ulp)) :: rat) \<le> of_int (2 ^ 53)"
    by (simp_all only: of_int_le_iff)
  then have "of_int (2 ^ 52) * ulp \<le> round_double x" "round_double x \<le> of_int (2 ^ 53) * ulp"
    unfolding rd using ulp by (simp_all only: mult_le_cancel_right_pos)
  then show ?thesis
    by (simp only: lo hi e_def [symmetric])
qed

lemma round_double_nonneg: "0 \<le> x \<Longrightarrow> 0 \<le> round_double x"
proof (cases "x = 0")
  case True
  then show ?thesis by (simp add: round_double_def)
next
  case False
  assume "0 \<le> x"
  with False have "0 < x" by simp
  from round_double_pos_bounds [OF this] have "2 powi binade x \<le> round_double x" by simp
  moreover have "(0::rat) < 2 powi binade x" by simp
  ultimately show ?thesis by linarith
qed

lemma round_double_mono_pos:
  assumes "0 < x" "x \<le> y"
  shows "round_double x \<le> round_double y"
proof -
  from assms have y: "0 < y" by simp
  show ?thesis
  proof (cases "binade x = binade y")
    case True
    define ulp :: rat where "ulp = 2 powi (binade y - 52)"
    have ulp: "0 < ulp" by (simp add: ulp_def)
    have "x / ulp \<le> y / ulp"
      using assms(2) ulp by (simp add: divide_right_mono)
    then have "round_even (x / ulp) \<le> round_even (y / ulp)"
      by (rule round_even_mono)
    then have "(of_int (round_even (x / ulp)) :: rat) * ulp \<le> of_int (round_even (y / ulp)) * ulp"
      using ulp by (simp only: mult_le_cancel_right_pos of_int_le_iff)
    then show ?thesis
      using assms(1) y True by (simp add: round_double_def Let_def ulp_def)
  next
    case False
    with binade_mono [OF assms] have "binade x + 1 \<le> binade y" by simp
    then have "(2::rat) powi (binade x + 1) \<le> 2 powi binade y"
      by (intro power_int_increasing) simp_all
    with round_double_pos_bounds [OF assms(1)] round_double_pos_bounds [OF y]
    show ?thesis by linarith
  qed
qed

lemma round_double_mono:
  assumes "0 \<le> x" "x \<le> y"
  shows "round_double x \<le> round_double y"
proof (cases "x = 0")
  case True
  from assms have "0 \<le> round_double y" by (intro round_double_nonneg) simp
  with True show ?thesis by (simp add: round_double_def)
next
  case False
  with assms(1) have "0 < x" by simp
  then show ?thesis using assms(2) by (rule round_double_mono_pos)
qed

subsection \<open>The thresholds\<close>

text \<open>
  A comparison of the rounded percentage with a threshold \<open>t\<close> agrees with the exact
  comparison as soon as two values are known: the rounded percentage of the ratio
  \<open>t/100\<close> itself, and that of the largest ratio of two \<^verbatim>\<open>int\<close> values below it.
\<close>

lemma percentage_of_pos:
  "0 < T \<Longrightarrow>
   percentage_of m T = Double (round_double (round_double (of_int m / of_int T) * 100))"
  by (simp add: percentage_of_def double_of_int_def)

lemma threshold:
  fixes t m T :: int
  assumes T: "0 < T" "T \<le> INT_MAX" and m: "0 \<le> m" and t: "0 \<le> t"
    and at: "of_int t \<le> round_double (round_double (of_int t / 100) * 100)"
    and below: "round_double (round_double (of_int t / 100 - 1 / 214748364700) * 100) < of_int t"
  shows "double_ge (percentage_of m T) (double_of_int t) \<longleftrightarrow>
         of_int t \<le> of_int m / of_int T * (100::rat)"
proof -
  let ?r = "of_int m / of_int T :: rat"
  let ?pct = "round_double (round_double ?r * 100)"
  have Tpos: "(0::rat) < of_int T" using T(1) by simp
  have r0: "0 \<le> ?r" using m T(1) by simp
  have ge: "double_ge (percentage_of m T) (double_of_int t) \<longleftrightarrow> of_int t \<le> ?pct"
    using T(1) by (simp add: percentage_of_pos double_of_int_def)
  have "of_int t \<le> ?pct" if le: "of_int t \<le> ?r * 100"
  proof -
    from le have "of_int t / 100 \<le> ?r" by simp
    moreover have "(0::rat) \<le> of_int t / 100" using t by simp
    ultimately have "round_double (of_int t / 100) \<le> round_double ?r"
      by (intro round_double_mono)
    then have "round_double (of_int t / 100) * 100 \<le> round_double ?r * 100"
      by simp
    moreover have "0 \<le> round_double (of_int t / 100) * 100"
      using t by (intro mult_nonneg_nonneg round_double_nonneg) simp_all
    ultimately have "round_double (round_double (of_int t / 100) * 100) \<le> ?pct"
      by (intro round_double_mono)
    with at show ?thesis by linarith
  qed
  moreover have "?pct < of_int t" if less: "?r * 100 < of_int t"
  proof -
    from less Tpos have "(of_int (m * 100) :: rat) < of_int (t * T)"
      by (simp add: pos_divide_less_eq)
    then have "m * 100 < t * T" by (simp only: of_int_less_iff)
    then have "m * 100 + 1 \<le> t * T" by simp
    then have "(of_int (m * 100 + 1) :: rat) \<le> of_int (t * T)" by (simp only: of_int_le_iff)
    then have "?r \<le> of_int t / 100 - 1 / (100 * of_int T)"
      using Tpos by (simp add: field_simps)
    moreover have "1 / (214748364700 :: rat) \<le> 1 / (100 * of_int T)"
    proof -
      from T(2) have "(of_int T :: rat) \<le> of_int 2147483647"
        by (simp only: of_int_le_iff INT_MAX_def)
      with Tpos show ?thesis by (simp add: field_simps)
    qed
    ultimately have "?r \<le> of_int t / 100 - 1 / 214748364700" by linarith
    with r0 have "round_double ?r \<le> round_double (of_int t / 100 - 1 / 214748364700)"
      by (intro round_double_mono)
    then have "round_double ?r * 100 \<le> round_double (of_int t / 100 - 1 / 214748364700) * 100"
      by simp
    moreover have "0 \<le> round_double ?r * 100"
      using r0 by (intro mult_nonneg_nonneg round_double_nonneg) simp_all
    ultimately have "?pct \<le> round_double (round_double (of_int t / 100 - 1 / 214748364700) * 100)"
      by (intro round_double_mono)
    with below show ?thesis by linarith
  qed
  ultimately have "of_int t \<le> ?pct \<longleftrightarrow> of_int t \<le> ?r * 100"
    by (metis linorder_not_less)
  with ge show ?thesis by simp
qed

lemma threshold_at:
  "of_int (90::int) \<le> round_double (round_double (of_int (90::int) / 100) * 100)"
  "of_int (85::int) \<le> round_double (round_double (of_int (85::int) / 100) * 100)"
  "of_int (80::int) \<le> round_double (round_double (of_int (80::int) / 100) * 100)"
  "of_int (75::int) \<le> round_double (round_double (of_int (75::int) / 100) * 100)"
  "of_int (70::int) \<le> round_double (round_double (of_int (70::int) / 100) * 100)"
  "of_int (65::int) \<le> round_double (round_double (of_int (65::int) / 100) * 100)"
  "of_int (60::int) \<le> round_double (round_double (of_int (60::int) / 100) * 100)"
  "of_int (55::int) \<le> round_double (round_double (of_int (55::int) / 100) * 100)"
  "of_int (50::int) \<le> round_double (round_double (of_int (50::int) / 100) * 100)"
  by code_simp+

lemma threshold_below:
  "round_double (round_double (of_int (90::int) / 100 - 1 / 214748364700) * 100) < of_int (90::int)"
  "round_double (round_double (of_int (85::int) / 100 - 1 / 214748364700) * 100) < of_int (85::int)"
  "round_double (round_double (of_int (80::int) / 100 - 1 / 214748364700) * 100) < of_int (80::int)"
  "round_double (round_double (of_int (75::int) / 100 - 1 / 214748364700) * 100) < of_int (75::int)"
  "round_double (round_double (of_int (70::int) / 100 - 1 / 214748364700) * 100) < of_int (70::int)"
  "round_double (round_double (of_int (65::int) / 100 - 1 / 214748364700) * 100) < of_int (65::int)"
  "round_double (round_double (of_int (60::int) / 100 - 1 / 214748364700) * 100) < of_int (60::int)"
  "round_double (round_double (of_int (55::int) / 100 - 1 / 214748364700) * 100) < of_int (55::int)"
  "round_double (round_double (of_int (50::int) / 100 - 1 / 214748364700) * 100) < of_int (50::int)"
  by code_simp+

text \<open>
  Claim C6: for marks between 0 and the total, and a positive total, the letter grade that
  the grade entry assigns is the fixed ladder on the exact percentage, with thresholds
  90/85/80/75/70/65/60/55/50 inclusive at the lower end of each band and \<open>F\<close> below 50:
  a ratio of exactly 0.90 gives \<open>A+\<close>, 0.8999 gives \<open>A\<close>, exactly 0.50 gives \<open>C-\<close> and
  0.4999 gives \<open>F\<close>. The code computes the percentage in \<^verbatim>\<open>double\<close>; the two roundings
  never move it across a threshold.
\<close>

theorem letterGrade_of_is_ladder:
  assumes "0 < totalMarks" "totalMarks \<le> INT_MAX" "0 \<le> marks" "marks \<le> totalMarks"
  shows "letterGrade_of marks totalMarks =
         ladder_spec (of_int marks / of_int totalMarks * 100)"
proof -
  note th = threshold [OF assms(1) assms(2) assms(3)]
  have ge:
    "double_ge (percentage_of marks totalMarks) (double_of_int 90) \<longleftrightarrow>
       (90::rat) \<le> of_int marks / of_int totalMarks * 100"
    "double_ge (percentage_of marks totalMarks) (double_of_int 85) \<longleftrightarrow>
       (85::rat) \<le> of_int marks / of_int totalMarks * 100"
    "double_ge (percentage_of marks totalMarks) (double_of_int 80) \<longleftrightarrow>
       (80::rat) \<le> of_int marks / of_int totalMarks * 100"
    "double_ge (percentage_of marks totalMarks) (double_of_int 75) \<longleftrightarrow>
       (75::rat) \<le> of_int marks / of_int totalMarks * 100"
    "double_ge (percentage_of marks totalMarks) (double_of_int 70) \<longleftrightarrow>
       (70::rat) \<le> of_int marks / of_int totalMarks * 100"
    "double_ge (percentage_of marks totalMarks) (double_of_int 65) \<longleftrightarrow>
       (65::rat) \<le> of_int marks / of_int totalMarks * 100"
    "double_ge (percentage_of marks totalMarks) (double_of_int 60) \<longleftrightarrow>
       (60::rat) \<le> of_int marks / of_int totalMarks * 100"
    "double_ge (percentage_of marks totalMarks) (double_of_int 55) \<longleftrightarrow>
       (55::rat) \<le> of_int marks / of_int totalMarks * 100"
    "double_ge (percentage_of marks totalMarks) (double_of_int 50) \<longleftrightarrow>
       (50::rat) \<le> of_int marks / of_int totalMarks * 100"
    using th [OF _ threshold_at(1) threshold_below(1)]
      th [OF _ threshold_at(2) threshold_below(2)]
      th [OF _ threshold_at(3) threshold_below(3)]
      th [OF _ threshold_at(4) threshold_below(4)]
      th [OF _ threshold_at(5) threshold_below(5)]
      th [OF _ threshold_at(6) threshold_below(6)]
      th [OF _ threshold_at(7) threshold_below(7)]
      th [OF _ threshold_at(8) threshold_below(8)]
      th [OF _ threshold_at(9) threshold_below(9)]
    by simp_all
  show ?thesis
    by (simp only: letterGrade_of_def ladder_spec_def Let_def ge)
qed

theorem letterGrade_of_is_ladder_witness:
  "letterGrade_of 90 100 = ''A+'' \<and> letterGrade_of 8999 10000 = ''A''
   \<and> letterGrade_of 50 100 = ''C-'' \<and> letterGrade_of 4999 10000 = ''F''
   \<and> letterGrade_of 2147483647 2147483647 = ''A+''"
proof -
  have r: "(0::int) < 100" "(100::int) \<le> INT_MAX" "(0::int) \<le> 90" "(90::int) \<le> 100"
    "(0::int) < 10000" "(10000::int) \<le> INT_MAX" "(0::int) \<le> 8999" "(8999::int) \<le> 10000"
    "(0::int) \<le> 50" "(50::int) \<le> 100" "(0::int) \<le> 4999" "(4999::int) \<le> 10000"
    "(0::int) < 2147483647" "(2147483647::int) \<le> INT_MAX" "(0::int) \<le> 2147483647"
    "(2147483647::int) \<le> 2147483647"
    by (simp_all add: INT_MAX_def)
  from letterGrade_of_is_ladder [OF r(1) r(2) r(3) r(4)]
    letterGrade_of_is_ladder [OF r(5) r(6) r(7) r(8)]
    letterGrade_of_is_ladder [OF r(1) r(2) r(9) r(10)]
    letterGrade_of_is_ladder [OF r(5) r(6) r(11) r(12)]
    letterGrade_of_is_ladder [OF r(13) r(14) r(15) r(16)]
  show ?thesis by (simp add: ladder_spec_def)
qed

section \<open>What the codec and the allocator do guarantee\<close>

subsection \<open>Tokens of a line\<close>

lemma getline_acc_field:
  "d \<notin> set f \<Longrightarrow> getline_acc d cur (f @ d # rest) = (cur @ f) # getline_acc d [] rest"
  by (induction f arbitrary: cur) auto

lemma getline_acc_last:
  "d \<notin> set f \<Longrightarrow> getline_acc d cur f = (if cur @ f = [] then [] else [cur @ f])"
  by (induction f arbitrary: cur) auto

subsection \<open>Decimal text and \<^verbatim>\<open>std::stoi\<close>\<close>

lemma digit_cases:
  fixes d :: int
  assumes "0 \<le> d" "d < 10"
  shows "d = 0 \<or> d = 1 \<or> d = 2 \<or> d = 3 \<or> d = 4 \<or> d = 5 \<or> d = 6 \<or> d = 7 \<or> d = 8 \<or> d = 9"
  using assms by presburger

lemma isdigit_digit_char: "0 \<le> d \<Longrightarrow> d < 10 \<Longrightarrow> isdigit (digit_char d)"
  using digit_cases [of d] by (auto simp: isdigit_def digit_char_def)

lemma digit_val_digit_char: "0 \<le> d \<Longrightarrow> d < 10 \<Longrightarrow> digit_val (digit_char d) = d"
  using digit_cases [of d] by (auto simp: digit_val_def digit_char_def)

lemma isdigit_plain:
  "isdigit c \<Longrightarrow> \<not> isspace c \<and> c \<noteq> CHR ''-'' \<and> c \<noteq> CHR ''+'' \<and> c \<noteq> CHR '','' \<and> 0 \<le> digit_val c"
  by (auto simp: isdigit_def isspace_def digit_val_def)

lemma dec_digits_digits:
  "0 \<le> n \<Longrightarrow> dec_digits n \<noteq> [] \<and> (\<forall>c \<in> set (dec_digits n). isdigit c)"
proof (induction n rule: dec_digits.induct)
  case (1 n)
  show ?case
  proof (cases "n < 10")
    case True
    with "1.prems" show ?thesis
      by (simp add: dec_digits.simps [of n] isdigit_digit_char)
  next
    case False
    with "1.prems" have "0 \<le> n div 10" "0 \<le> n mod 10" "n mod 10 < 10" by simp_all
    with "1.IH" False show ?thesis
      by (simp add: dec_digits.simps [of n] isdigit_digit_char)
  qed
qed

lemma digits_val_snoc: "digits_val (ds @ [c]) = 10 * digits_val ds + digit_val c"
  by (simp add: digits_val_def)

lemma digits_val_dec_digits: "0 \<le> n \<Longrightarrow> digits_val (dec_digits n) = n"
proof (induction n rule: dec_digits.induct)
  case (1 n)
  show ?case
  proof (cases "n < 10")
    case True
    with "1.prems" show ?thesis
      by (simp add: dec_digits.simps [of n] digits_val_def digit_val_digit_char)
  next
    case False
    with "1.prems" have "0 \<le> n div 10" "0 \<le> n mod 10" "n mod 10 < 10" by simp_all
    with "1.IH" False show ?thesis
      by (simp add: dec_digits.simps [of n] digits_val_snoc digit_val_digit_char)
  qed
qed

lemma digits_val_zeros: "digits_val (replicate k (CHR ''0'') @ ds) = digits_val ds"
proof -
  have "foldl (\<lambda>a c. 10 * a + digit_val c) 0 (replicate k (CHR ''0'')) = 0"
    by (induction k) (simp_all add: digit_val_def)
  then show ?thesis by (simp add: digits_val_def)
qed

lemma digits_val_nonneg: "\<forall>c \<in> set ds. isdigit c \<Longrightarrow> 0 \<le> digits_val ds"
proof (induction ds rule: rev_induct)
  case Nil
  then show ?case by (simp add: digits_val_def)
next
  case (snoc c ds)
  then show ?case
    using isdigit_plain [of c] by (simp add: digits_val_snoc)
qed

lemma stoi_digits:
  assumes "ds \<noteq> []" "\<forall>c \<in> set ds. isdigit c" "digits_val ds \<le> INT_MAX"
  shows "stoi ds = Inr (digits_val ds)"
proof -
  from assms(1) obtain c cs where ds: "ds = c # cs" by (cases ds) auto
  with assms(2) have c: "isdigit c" by simp
  have drop: "dropWhile isspace ds = ds"
    using ds c isdigit_plain [of c] by simp
  have take: "takeWhile isdigit ds = ds"
    using assms(2) by (simp add: takeWhile_eq_all_conv)
  have "INT_MIN \<le> digits_val ds"
    using digits_val_nonneg [OF assms(2)] by (simp add: INT_MIN_def)
  moreover have "hd ds \<noteq> CHR ''-''" "hd ds \<noteq> CHR ''+''"
    using ds c isdigit_plain [of c] by simp_all
  ultimately show ?thesis
    using assms(1,3) by (simp add: stoi_def Let_def drop take)
qed

lemma stoi_to_string:
  assumes "INT_MIN \<le> n" "n \<le> INT_MAX"
  shows "stoi (to_string n) = Inr n"
proof (cases "n < 0")
  case False
  then have n: "0 \<le> n" by simp
  from dec_digits_digits [OF n] digits_val_dec_digits [OF n] assms(2)
  have "stoi (dec_digits n) = Inr n"
    using stoi_digits [of "dec_digits n"] by simp
  with False show ?thesis by (simp add: to_string_def)
next
  case True
  then have n: "0 \<le> - n" by simp
  let ?ds = "dec_digits (- n)"
  from dec_digits_digits [OF n] have ds: "?ds \<noteq> []" "\<forall>c \<in> set ?ds. isdigit c" by simp_all
  have take: "takeWhile isdigit ?ds = ?ds"
    using ds(2) by (simp add: takeWhile_eq_all_conv)
  have space: "\<not> isspace (CHR ''-'')" by (simp add: isspace_def)
  have "stoi (CHR ''-'' # ?ds) = Inr n"
    using ds(1) space digits_val_dec_digits [OF n] assms True
    by (simp add: stoi_def Let_def INT_MAX_def take)
  with True show ?thesis by (simp add: to_string_def)
qed

lemma to_string_no_comma: "CHR '','' \<notin> set (to_string n)"
proof -
  have "\<forall>c \<in> set (dec_digits m). c \<noteq> CHR '',''" if "0 \<le> m" for m
    using dec_digits_digits [OF that] isdigit_plain by blast
  from this [of n] this [of "- n"] show ?thesis
    by (auto simp: to_string_def)
qed

subsection \<open>Round trips\<close>

text \<open>
  A record whose fields hold no comma and whose last field is not empty is decoded from
  its own encoding; shown for the two kinds with and without an integer field that the
  grade entry and the enrollment write.
\<close>

lemma Grade_decode_encode:
  assumes "CHR '','' \<notin> set (Grade_studentId g)" "CHR '','' \<notin> set (Grade_examId g)"
    "CHR '','' \<notin> set (Grade_letterGrade g)" "CHR '','' \<notin> set (Grade_comments g)"
    and "Grade_comments g \<noteq> []"
    and "INT_MIN \<le> Grade_marksObtained g" "Grade_marksObtained g \<le> INT_MAX"
  shows "Grade_fromCSV (Grade_toCSV g) = Inr g"
proof -
  have "csv_tokens (Grade_toCSV g) =
      [Grade_studentId g, Grade_examId g, to_string (Grade_marksObtained g),
       Grade_letterGrade g, Grade_comments g]"
    using assms(1-5) to_string_no_comma [of "Grade_marksObtained g"]
    by (simp add: csv_tokens_def getline_all_def Grade_toCSV_def getline_acc_field
        getline_acc_last)
  then show ?thesis
    using stoi_to_string [OF assms(6,7)]
    by (simp add: Grade_fromCSV_def bind_exn_def)
qed

lemma Enrollment_decode_encode:
  assumes "CHR '','' \<notin> set (Enrollment_studentId e)" "CHR '','' \<notin> set (Enrollment_courseId e)"
    "CHR '','' \<notin> set (Enrollment_grade e)" "CHR '','' \<notin> set (Enrollment_status e)"
    and "Enrollment_status e \<noteq> []"
  shows "Enrollment_fromCSV (Enrollment_toCSV e) = e"
proof -
  have "csv_tokens (Enrollment_toCSV e) =
      [Enrollment_studentId e, Enrollment_courseId e, Enrollment_grade e, Enrollment_status e]"
    using assms
    by (simp add: csv_tokens_def getline_all_def Enrollment_toCSV_def getline_acc_field
        getline_acc_last)
  then show ?thesis
    by (simp add: Enrollment_fromCSV_def)
qed

subsection \<open>The allocator below and above 999\<close>

lemma nextId_step_ge: "a \<le> nextId_step p a ident"
  by (simp add: nextId_step_def split: sum.splits)

lemma foldl_nextId_ge: "a \<le> foldl (nextId_step p) a ids"
proof (induction ids arbitrary: a)
  case Nil
  then show ?case by simp
next
  case (Cons i ids)
  have "a \<le> nextId_step p a i" by (rule nextId_step_ge)
  also have "\<dots> \<le> foldl (nextId_step p) (nextId_step p a i) ids" by (rule Cons.IH)
  finally show ?case by simp
qed

lemma foldl_nextId_bound:
  assumes "ident \<in> set ids" "length p < length ident" "take (length p) ident = p"
    and "stoi (drop (length p) ident) = Inr num"
  shows "num \<le> foldl (nextId_step p) a ids"
  using assms(1)
proof (induction ids arbitrary: a)
  case Nil
  then show ?case by simp
next
  case (Cons i ids)
  show ?case
  proof (cases "ident = i")
    case True
    with assms(2-4) have "num \<le> nextId_step p a i"
      by (simp add: nextId_step_def)
    also have "\<dots> \<le> foldl (nextId_step p) (nextId_step p a i) ids"
      by (rule foldl_nextId_ge)
    finally show ?thesis by simp
  next
    case False
    with Cons.prems have "ident \<in> set ids" by simp
    from Cons.IH [OF this] show ?thesis by simp
  qed
qed

lemma length_dec_digits_le: "0 \<le> n \<Longrightarrow> int (length (dec_digits n)) \<le> n + 1"
proof (induction n rule: dec_digits.induct)
  case (1 n)
  show ?case
  proof (cases "n < 10")
    case True
    with "1.prems" show ?thesis by (simp add: dec_digits.simps [of n])
  next
    case False
    with "1.prems" have "0 \<le> n div 10" by simp
    with "1.IH" False have "int (length (dec_digits (n div 10))) \<le> n div 10 + 1" by simp
    moreover from False have "n div 10 + 2 \<le> n + 1" by presburger
    ultimately show ?thesis using False by (simp add: dec_digits.simps [of n])
  qed
qed

lemma length_dec_digits_one: "n < 10 \<Longrightarrow> length (dec_digits n) = 1"
  by (subst dec_digits.simps) simp

lemma length_dec_digits_step:
  "\<not> n < 10 \<Longrightarrow> length (dec_digits n) = Suc (length (dec_digits (n div 10)))"
  by (subst dec_digits.simps) simp

lemma length_dec_digits_small:
  assumes "n < 1000"
  shows "length (dec_digits n) \<le> 3"
proof (cases "n < 10")
  case True
  then show ?thesis by (simp add: length_dec_digits_one)
next
  case False
  note n1 = this
  show ?thesis
  proof (cases "n div 10 < 10")
    case True
    with n1 show ?thesis
      by (simp add: length_dec_digits_step length_dec_digits_one)
  next
    case False
    moreover from assms have "n div 10 div 10 < 10" by presburger
    ultimately show ?thesis
      using n1 by (simp add: length_dec_digits_step length_dec_digits_one)
  qed
qed

lemma length_dec_digits_large:
  assumes "1000 \<le> n"
  shows "4 \<le> length (dec_digits n)"
proof -
  from assms have big: "\<not> n < 10" "\<not> n div 10 < 10" "\<not> n div 10 div 10 < 10"
    by presburger+
  have "length (dec_digits n) = Suc (Suc (Suc (length (dec_digits (n div 10 div 10 div 10)))))"
    by (simp only: length_dec_digits_step [OF big(1)] length_dec_digits_step [OF big(2)]
        length_dec_digits_step [OF big(3)])
  moreover have "1 \<le> length (dec_digits (n div 10 div 10 div 10))"
    by (cases "n div 10 div 10 div 10 < 10")
      (simp_all add: length_dec_digits_step length_dec_digits_one)
  ultimately show ?thesis by simp
qed

text \<open>
  What the allocator does, in full: \<open>maxNum\<close> is the value of the loop. Below 999 the
  identifier is padded to three digits; from 999 on the call throws.
\<close>

lemma generateNextId_from_max:
  assumes m0: "0 \<le> maxNum" and fold: "foldl (nextId_step prefix) 0 existingIds = maxNum"
  shows "generateNextId prefix existingIds =
     (if maxNum < 999 then
        Inr (prefix @ replicate (3 - length (dec_digits (maxNum + 1))) (CHR ''0'') @
             dec_digits (maxNum + 1))
      else if maxNum < INT_MAX then Inl LengthError
      else Inl SignedOverflow)"
proof -
  from m0 have ts: "to_string (maxNum + 1) = dec_digits (maxNum + 1)"
    by (simp add: to_string_def)
  have gen: "generateNextId prefix existingIds =
     (if INT_MAX < maxNum + 1 then Inl SignedOverflow
      else bind_exn (string_fill (size_t_sub 3 (int (length (dec_digits (maxNum + 1))))) (CHR ''0''))
             (\<lambda>zeros. Inr (prefix @ zeros @ dec_digits (maxNum + 1))))"
    by (simp only: generateNextId_def Let_def fold ts)
  consider "maxNum < 999" | "999 \<le> maxNum" "maxNum < INT_MAX" | "INT_MAX \<le> maxNum"
    by linarith
  then show ?thesis
  proof cases
    case 1
    with m0 have len: "length (dec_digits (maxNum + 1)) \<le> 3"
      by (intro length_dec_digits_small) simp
    then have "size_t_sub 3 (int (length (dec_digits (maxNum + 1)))) =
        int (3 - length (dec_digits (maxNum + 1)))"
      by (simp add: size_t_sub_def)
    with 1 show ?thesis
      by (simp add: gen string_fill_def string_max_size_def bind_exn_def INT_MAX_def)
  next
    case 2
    then have lo: "4 \<le> length (dec_digits (maxNum + 1))"
      by (intro length_dec_digits_large) simp
    from 2 m0 have hi: "int (length (dec_digits (maxNum + 1))) \<le> 2147483648"
      using length_dec_digits_le [of "maxNum + 1"] by (simp add: INT_MAX_def)
    define l where "l = int (length (dec_digits (maxNum + 1)))"
    from lo hi have l: "4 \<le> l" "l \<le> 2147483648" by (simp_all add: l_def)
    have "(3 - l) mod 2 ^ 64 = (3 - l + 2 ^ 64) mod 2 ^ 64"
      by (rule mod_add_self2 [symmetric])
    also from l have "\<dots> = 3 - l + 2 ^ 64"
      by (intro mod_pos_pos_trivial) simp_all
    finally have "size_t_sub 3 l = 3 - l + 2 ^ 64"
      by (simp only: size_t_sub_def)
    with l have "string_max_size < size_t_sub 3 l"
      by (simp add: string_max_size_def)
    then have "string_fill (size_t_sub 3 l) (CHR ''0'') = Inl LengthError"
      by (simp add: string_fill_def)
    with 2 show ?thesis
      by (simp add: gen bind_exn_def l_def)
  next
    case 3
    then show ?thesis
      by (simp add: gen INT_MAX_def)
  qed
qed

text \<open>An identifier that the allocator returns is not among the existing ones.\<close>

lemma generateNextId_fresh:
  assumes "generateNextId prefix existingIds = Inr r"
  shows "r \<notin> set existingIds"
proof
  assume mem: "r \<in> set existingIds"
  define maxNum where "maxNum = foldl (nextId_step prefix) 0 existingIds"
  have m0: "0 \<le> maxNum"
    unfolding maxNum_def by (rule foldl_nextId_ge)
  let ?suffix = "replicate (3 - length (dec_digits (maxNum + 1))) (CHR ''0'') @
             dec_digits (maxNum + 1)"
  from assms generateNextId_from_max [OF m0 maxNum_def [symmetric]]
  have small: "maxNum < 999" and r: "r = prefix @ ?suffix"
    by (simp_all split: if_splits)
  from m0 have n: "0 \<le> maxNum + 1" by simp
  have zero: "isdigit (CHR ''0'')" by (simp add: isdigit_def)
  have digits: "?suffix \<noteq> []" "\<forall>c \<in> set ?suffix. isdigit c"
    using dec_digits_digits [OF n] zero by auto
  have val: "digits_val ?suffix = maxNum + 1"
    by (simp only: digits_val_zeros digits_val_dec_digits [OF n])
  have "digits_val ?suffix \<le> INT_MAX"
    using small by (simp only: val) (simp add: INT_MAX_def)
  from stoi_digits [OF digits this] have parsed: "stoi ?suffix = Inr (maxNum + 1)"
    by (simp only: val)
  have "dec_digits (maxNum + 1) \<noteq> []"
    using dec_digits_digits [OF n] by simp
  then have shape: "length prefix < length r" "take (length prefix) r = prefix"
    "drop (length prefix) r = ?suffix"
    by (simp_all add: r)
  from parsed have "stoi (drop (length prefix) r) = Inr (maxNum + 1)"
    by (simp only: shape(3))
  from foldl_nextId_bound [OF mem shape(1) shape(2) this, of 0]
  show False by (simp add: maxNum_def)
qed

lemma generateNextId_example:
  "generateNextId ''STU'' [''STU001'', ''STU003''] = Inr ''STU004''"
  by code_simp

end
